theory Spec2Isabelle
  imports Main "HOL-Library.Word"
begin

unbundle bit_operations_syntax

section \<open>Python values\<close>

text \<open>
  The client passes around the values that JSON can carry: \<open>None\<close>, booleans, integers,
  floats, strings, lists and dictionaries with string keys. A float is kept as its 64 bits;
  text is ASCII. A dictionary is an association list in insertion order with distinct keys,
  as a Python \<open>dict\<close> is.
\<close>

datatype pyval =
    PNone
  | PBool bool
  | PInt int
  | PFloat "64 word"
  | PStr string
  | PList "pyval list"
  | PDict "(string \<times> pyval) list"

datatype pytype = TNone | TBool | TInt | TFloat | TStr | TList | TDict

fun type_of :: "pyval \<Rightarrow> pytype" where
  "type_of PNone = TNone"
| "type_of (PBool b) = TBool"
| "type_of (PInt i) = TInt"
| "type_of (PFloat w) = TFloat"
| "type_of (PStr s) = TStr"
| "type_of (PList xs) = TList"
| "type_of (PDict kvs) = TDict"

text \<open>
  The exceptions that the client code can meet. \<open>ValueError\<close> carries its message;
  the interpreter's own messages for \<open>TypeError\<close> are not modelled.
\<close>

datatype pyerr = ValueError string | TypeError | KeyError string

text \<open>
  What the interpreter and the standard library provide and the repository does not define:
  \<open>repr\<close> of a float, \<open>repr\<close> of a string, and whether
  \<open>datetime.datetime.strptime(s, '%Y-%m-%d')\<close> accepts the string \<open>s\<close>.
\<close>

record pylib =
  float_repr :: "64 word \<Rightarrow> string"
  str_repr :: "string \<Rightarrow> string"
  strptime_ok :: "string \<Rightarrow> bool"

text \<open>Truth value of a Python object in \<open>if v:\<close>. Both zeros of a float are false.\<close>

fun truthy :: "pyval \<Rightarrow> bool" where
  "truthy PNone = False"
| "truthy (PBool b) = b"
| "truthy (PInt i) = (i \<noteq> 0)"
| "truthy (PFloat w) = (w AND 0x7FFFFFFFFFFFFFFF \<noteq> 0)"
| "truthy (PStr s) = (s \<noteq> [])"
| "truthy (PList xs) = (xs \<noteq> [])"
| "truthy (PDict kvs) = (kvs \<noteq> [])"

subsection \<open>\<open>str\<close>, \<open>repr\<close> and \<open>lower\<close>\<close>

definition digit_char :: "nat \<Rightarrow> char" where
  "digit_char d = ''0123456789'' ! d"

fun digits :: "nat \<Rightarrow> string" where
  "digits n = (if n < 10 then [digit_char n] else digits (n div 10) @ [digit_char (n mod 10)])"

declare digits.simps [simp del]

definition str_int :: "int \<Rightarrow> string" where
  "str_int i = (if i < 0 then CHR ''-'' # digits (nat (- i)) else digits (nat i))"

text \<open>\<open>sep.join(xs)\<close>\<close>

fun join :: "string \<Rightarrow> string list \<Rightarrow> string" where
  "join sep [] = []"
| "join sep [x] = x"
| "join sep (x # y # ys) = x @ sep @ join sep (y # ys)"

fun py_repr :: "pylib \<Rightarrow> pyval \<Rightarrow> string" where
  "py_repr L PNone = ''None''"
| "py_repr L (PBool b) = (if b then ''True'' else ''False'')"
| "py_repr L (PInt i) = str_int i"
| "py_repr L (PFloat w) = float_repr L w"
| "py_repr L (PStr s) = str_repr L s"
| "py_repr L (PList xs) = ''['' @ join '', '' (map (py_repr L) xs) @ '']''"
| "py_repr L (PDict kvs) =
     ''{'' @ join '', '' (map (\<lambda>kv. str_repr L (fst kv) @ '': '' @ py_repr L (snd kv)) kvs) @ ''}''"

text \<open>\<open>str(v)\<close>, which is also what \<open>'{}'.format(v)\<close> inserts.\<close>

definition py_str :: "pylib \<Rightarrow> pyval \<Rightarrow> string" where
  "py_str L v = (case v of PStr s \<Rightarrow> s | _ \<Rightarrow> py_repr L v)"

definition lower_char :: "char \<Rightarrow> char" where
  "lower_char c =
     (case map_of (zip ''ABCDEFGHIJKLMNOPQRSTUVWXYZ'' ''abcdefghijklmnopqrstuvwxyz'') c of
        Some l \<Rightarrow> l
      | None \<Rightarrow> c)"

definition lower :: "string \<Rightarrow> string" where
  "lower s = map lower_char s"

subsection \<open>Dictionaries, subscripts and iteration\<close>

text \<open>\<open>d[k] = v\<close>: an existing key keeps its place, a new key goes to the end.\<close>

fun dict_set :: "(string \<times> pyval) list \<Rightarrow> string \<Rightarrow> pyval \<Rightarrow> (string \<times> pyval) list" where
  "dict_set [] k v = [(k, v)]"
| "dict_set ((k', v') # kvs) k v =
     (if k' = k then (k, v) # kvs else (k', v') # dict_set kvs k v)"

text \<open>\<open>x[k]\<close> for a string \<open>k\<close>.\<close>

fun subscript :: "pyval \<Rightarrow> string \<Rightarrow> pyerr + pyval" where
  "subscript (PDict kvs) k = (case map_of kvs k of Some v \<Rightarrow> Inr v | None \<Rightarrow> Inl (KeyError k))"
| "subscript v k = Inl TypeError"

text \<open>The items that \<open>for item in x\<close> visits.\<close>

fun iterate :: "pyval \<Rightarrow> pyerr + pyval list" where
  "iterate (PList xs) = Inr xs"
| "iterate (PStr s) = Inr (map (\<lambda>c. PStr [c]) s)"
| "iterate (PDict kvs) = Inr (map (\<lambda>kv. PStr (fst kv)) kvs)"
| "iterate v = Inl TypeError"

text \<open>\<open>s in enum\<close> for a list \<open>enum\<close> of strings: only an equal string is a member.\<close>

definition py_in :: "pyval \<Rightarrow> string list \<Rightarrow> bool" where
  "py_in s enum = (case s of PStr x \<Rightarrow> x \<in> set enum | _ \<Rightarrow> False)"

section \<open>Precondition methods\<close>

definition precondition_error :: "string \<Rightarrow> pyerr + unit" where
  "precondition_error s = Inl (ValueError s)"

definition precondition_str :: "pylib \<Rightarrow> pyval \<Rightarrow> pyerr + unit" where
  "precondition_str L s =
     (if s = PNone then Inr ()
      else if type_of s \<noteq> TStr then precondition_error (py_str L s @ '' is not a string!'')
      else Inr ())"

definition precondition_int :: "pylib \<Rightarrow> pyval \<Rightarrow> pyerr + unit" where
  "precondition_int L i =
     (if i = PNone then Inr ()
      else if type_of i \<noteq> TInt then precondition_error (py_str L i @ '' is not a string!'')
      else Inr ())"

definition precondition_float :: "pylib \<Rightarrow> pyval \<Rightarrow> pyerr + unit" where
  "precondition_float L f =
     (if f = PNone then Inr ()
      else if type_of f \<noteq> TFloat then precondition_error (py_str L f @ '' is not a float!'')
      else Inr ())"

definition precondition_bool :: "pylib \<Rightarrow> pyval \<Rightarrow> pyerr + unit" where
  "precondition_bool L b =
     (if b = PNone then Inr ()
      else if type_of b \<noteq> TBool then precondition_error (py_str L b @ '' is not a boolean!'')
      else Inr ())"

definition precondition_enum :: "pylib \<Rightarrow> pyval \<Rightarrow> string list \<Rightarrow> pyerr + unit" where
  "precondition_enum L s enum =
     (if s = PNone then Inr ()
      else if py_in s enum then Inr ()
      else precondition_error
             (py_str L s @ '' is not in the accepted values list: ''
                @ py_str L (PList (map PStr enum)) @ ''!''))"

text \<open>
  \<open>datetime.datetime.strptime(d, '%Y-%m-%d')\<close>: a \<open>TypeError\<close> when \<open>d\<close> is not a string,
  a \<open>ValueError\<close> when the string does not parse.
\<close>

definition strptime :: "pylib \<Rightarrow> pyval \<Rightarrow> pyerr + unit" where
  "strptime L d =
     (case d of
        PStr s \<Rightarrow> if strptime_ok L s then Inr () else Inl (ValueError [])
      | _ \<Rightarrow> Inl TypeError)"

text \<open>The \<open>try\<close> block catches \<open>ValueError\<close> only; any other exception goes on to the caller.\<close>

definition precondition_date :: "pylib \<Rightarrow> pyval \<Rightarrow> pyerr + unit" where
  "precondition_date L d =
     (if d = PNone then Inr ()
      else (case strptime L d of
              Inr u \<Rightarrow> Inr ()
            | Inl (ValueError m) \<Rightarrow> precondition_error (py_str L d @ '' is not a date!'')
            | Inl e \<Rightarrow> Inl e))"

text \<open>A sequence of statements that may raise: the first exception ends it.\<close>

fun checks :: "(pyerr + unit) list \<Rightarrow> pyerr + unit" where
  "checks [] = Inr ()"
| "checks (Inl e # cs) = Inl e"
| "checks (Inr u # cs) = checks cs"

definition precondition_list :: "pylib \<Rightarrow> pyval \<Rightarrow> pyval \<Rightarrow> pyerr + unit" where
  "precondition_list L l item_type =
     (if l = PNone then Inr ()
      else if type_of l \<noteq> TList then precondition_error (py_str L l @ '' is not a list!'')
      else (case l of
              PList xs \<Rightarrow>
                checks
                  [if item_type = PStr ''str'' then checks (map (precondition_str L) xs) else Inr (),
                   if item_type = PStr ''int'' then checks (map (precondition_int L) xs) else Inr (),
                   if item_type = PStr ''bool'' then checks (map (precondition_bool L) xs) else Inr (),
                   if item_type = PStr ''date'' then checks (map (precondition_date L) xs) else Inr (),
                   if item_type = PStr ''float'' then checks (map (precondition_float L) xs) else Inr ()]
            | _ \<Rightarrow> Inr ()))"

section \<open>Generic helpers\<close>

text \<open>\<open>_add_to_dict(d, k, v)\<close>, returning the dictionary that the source mutates.\<close>

definition add_to_dict ::
    "pylib \<Rightarrow> (string \<times> pyval) list \<Rightarrow> string \<Rightarrow> pyval \<Rightarrow> (string \<times> pyval) list" where
  "add_to_dict L d k v =
     (let v' = (if k = ''expand'' \<and> truthy v then PStr (lower (py_str L v)) else v)
      in if truthy (PStr k) \<and> truthy v' then dict_set d k v' else d)"

section \<open>HTTP methods\<close>

text \<open>
  The client object holds the server's base URL and the token; the session's headers are
  fixed at construction and go with every request, so a request is described by its verb,
  its URL and the value given to \<open>json.dumps\<close> (\<open>None\<close> when the request is sent
  bare). The text made by \<open>json.dumps\<close> travels as the query parameters of a GET and as
  the body of the other verbs. The remote server is a function from the request to the
  parsed JSON of its answer (\<open>resp.json()\<close>).
\<close>

datatype verb = GET | POST | PUT | PATCH | DELETE

record request =
  rq_verb :: verb
  rq_url :: string
  rq_json :: "pyval option"

record snipe_api =
  server :: string
  token :: string

type_synonym remote = "request \<Rightarrow> pyval"

text \<open>What a method call does: the value returned or the exception raised, and the requests sent.\<close>

type_synonym outcome = "(pyerr + pyval) \<times> request list"

definition perform :: "remote \<Rightarrow> request \<Rightarrow> outcome" where
  "perform remote rq = (Inr (remote rq), [rq])"

definition http_get :: "snipe_api \<Rightarrow> remote \<Rightarrow> string \<Rightarrow> pyval \<Rightarrow> outcome" where
  "http_get api remote path params =
     (let url = server api @ path
      in if truthy params
         then perform remote \<lparr>rq_verb = GET, rq_url = url, rq_json = Some params\<rparr>
         else perform remote \<lparr>rq_verb = GET, rq_url = url, rq_json = None\<rparr>)"

definition http_post :: "snipe_api \<Rightarrow> remote \<Rightarrow> string \<Rightarrow> pyval \<Rightarrow> outcome" where
  "http_post api remote path payload =
     (let url = server api @ path
      in if truthy payload
         then perform remote \<lparr>rq_verb = POST, rq_url = url, rq_json = Some payload\<rparr>
         else perform remote \<lparr>rq_verb = POST, rq_url = url, rq_json = None\<rparr>)"

definition http_put :: "snipe_api \<Rightarrow> remote \<Rightarrow> string \<Rightarrow> pyval \<Rightarrow> outcome" where
  "http_put api remote path payload =
     (let url = server api @ path
      in if truthy payload
         then perform remote \<lparr>rq_verb = PUT, rq_url = url, rq_json = Some payload\<rparr>
         else perform remote \<lparr>rq_verb = PUT, rq_url = url, rq_json = None\<rparr>)"

definition http_patch :: "snipe_api \<Rightarrow> remote \<Rightarrow> string \<Rightarrow> pyval \<Rightarrow> outcome" where
  "http_patch api remote path payload =
     (let url = server api @ path
      in if truthy payload
         then perform remote \<lparr>rq_verb = PATCH, rq_url = url, rq_json = Some payload\<rparr>
         else perform remote \<lparr>rq_verb = PATCH, rq_url = url, rq_json = None\<rparr>)"

definition http_delete :: "snipe_api \<Rightarrow> remote \<Rightarrow> string \<Rightarrow> pyval \<Rightarrow> outcome" where
  "http_delete api remote path payload =
     (let url = server api @ path
      in if truthy payload
         then perform remote \<lparr>rq_verb = DELETE, rq_url = url, rq_json = Some payload\<rparr>
         else perform remote \<lparr>rq_verb = DELETE, rq_url = url, rq_json = None\<rparr>)"

section \<open>Resource methods\<close>

text \<open>
  Every method runs its precondition calls in order and stops at the first one that raises,
  before anything is sent. The methods are given in the order of the source, with the
  arguments in the order of the signature; an argument left out in a call is \<open>None\<close>.
  \<open>update_asset\<close> also prints its payload; what goes to the terminal is not modelled.
\<close>

definition after_checks :: "(pyerr + unit) list \<Rightarrow> outcome \<Rightarrow> outcome" where
  "after_checks cs k = (case checks cs of Inl e \<Rightarrow> (Inl e, []) | Inr u \<Rightarrow> k)"

text \<open>A call whose value is dropped: the method falls off its end and returns \<open>None\<close>.\<close>

definition returning_none :: "outcome \<Rightarrow> outcome" where
  "returning_none r = (case fst r of Inl e \<Rightarrow> (Inl e, snd r) | Inr v \<Rightarrow> (Inr PNone, snd r))"

text \<open>
  The loop of every \<open>get_..._by_name\<close>:
  \<^verbatim>\<open>for row in rows: if row['name'] == name: return row\<close>, then \<open>return None\<close>.
  The name is a string, and only an equal string compares equal to it.
\<close>

fun scan_rows :: "pyval list \<Rightarrow> string \<Rightarrow> pyerr + pyval" where
  "scan_rows [] name = Inr PNone"
| "scan_rows (row # rows) name =
     (case subscript row ''name'' of
        Inl e \<Rightarrow> Inl e
      | Inr v \<Rightarrow> if v = PStr name then Inr row else scan_rows rows name)"

definition by_name :: "outcome \<Rightarrow> string \<Rightarrow> outcome" where
  "by_name found name =
     (case fst found of
        Inl e \<Rightarrow> (Inl e, snd found)
      | Inr body \<Rightarrow>
          (case subscript body ''rows'' of
             Inl e \<Rightarrow> (Inl e, snd found)
           | Inr rows \<Rightarrow>
               (case iterate rows of
                  Inl e \<Rightarrow> (Inl e, snd found)
                | Inr items \<Rightarrow> (scan_rows items name, snd found))))"

text \<open>The list of columns that the \<open>get_...\<close> methods accept for \<open>sort\<close>.\<close>

definition sort_columns :: "string list" where
  "sort_columns =
     [''id'', ''name'', ''asset_tag'', ''serial'', ''model'', ''model_number'', ''last_checkout'',
      ''category'', ''manufacturer'', ''notes'', ''expected_checkin'', ''order_number'',
      ''companyName'', ''location'', ''image'', ''status_label'', ''assigned_to'', ''created_at'',
      ''purchase_date'', ''purchase_cost'']"

subsection \<open>Accessories\<close>

definition create_accessory ::
    "pylib \<Rightarrow> snipe_api \<Rightarrow> remote \<Rightarrow> pyval \<Rightarrow> pyval
     \<Rightarrow> pyval \<Rightarrow> pyval \<Rightarrow> pyval \<Rightarrow> pyval
     \<Rightarrow> pyval \<Rightarrow> pyval \<Rightarrow> pyval \<Rightarrow> pyval
     \<Rightarrow> pyval \<Rightarrow> outcome" where
  "create_accessory L api remote name qty category_id order_number purchase_cost
      purchase_date model_number company_id location_id manufacturer_id supplier_id =
     after_checks
       [precondition_str L name,
        precondition_int L qty,
        precondition_str L order_number,
        precondition_float L purchase_cost,
        precondition_str L purchase_date,
        precondition_str L model_number,
        precondition_int L category_id,
        precondition_int L company_id,
        precondition_int L location_id,
        precondition_int L manufacturer_id,
        precondition_int L supplier_id]
       (let payload = [(''name'', name), (''qty'', qty), (''category_id'', category_id)];
            payload = add_to_dict L payload ''order_number'' order_number;
            payload = add_to_dict L payload ''purchase_cost'' purchase_cost;
            payload = add_to_dict L payload ''purchase_date'' purchase_date;
            payload = add_to_dict L payload ''model_number'' model_number;
            payload = add_to_dict L payload ''company_id'' company_id;
            payload = add_to_dict L payload ''location_id'' location_id;
            payload = add_to_dict L payload ''manufacturer_id'' manufacturer_id;
            payload = add_to_dict L payload ''supplier_id'' supplier_id;
            path = ''/api/v1/accessories''
        in http_post api remote path (PDict payload))"

definition get_accessories ::
    "pylib \<Rightarrow> snipe_api \<Rightarrow> remote \<Rightarrow> pyval \<Rightarrow> pyval
     \<Rightarrow> pyval \<Rightarrow> pyval \<Rightarrow> pyval \<Rightarrow> pyval
     \<Rightarrow> pyval \<Rightarrow> outcome" where
  "get_accessories L api remote limit offset search order_number sort' order expand =
     after_checks
       [precondition_int L limit,
        precondition_int L offset,
        precondition_str L search,
        precondition_str L order_number,
        precondition_enum L sort' sort_columns,
        precondition_enum L order [''asc'', ''desc''],
        precondition_bool L expand]
       (let params = [];
            params = add_to_dict L params ''limit'' limit;
            params = add_to_dict L params ''offset'' offset;
            params = add_to_dict L params ''search'' search;
            params = add_to_dict L params ''order_number'' order_number;
            params = add_to_dict L params ''sort'' sort';
            params = add_to_dict L params ''order'' order;
            params = add_to_dict L params ''expand'' expand;
            params = PStr (py_str L (PDict params));
            path = ''/api/v1/accessories''
        in http_get api remote path params)"

definition get_accessory_by_id ::
    "pylib \<Rightarrow> snipe_api \<Rightarrow> remote \<Rightarrow> pyval \<Rightarrow>
     outcome" where
  "get_accessory_by_id L api remote accessory_id =
     after_checks
       [precondition_int L accessory_id]
       (let path = ''/api/v1/accessories/'' @ py_str L accessory_id
        in http_get api remote path PNone)"

definition get_accessory_by_name ::
    "pylib \<Rightarrow> snipe_api \<Rightarrow> remote \<Rightarrow> string \<Rightarrow>
     outcome" where
  "get_accessory_by_name L api remote name =
     by_name (get_accessories L api remote PNone PNone (PStr name) PNone PNone PNone PNone) name"

subsection \<open>Assets\<close>

definition create_asset ::
    "pylib \<Rightarrow> snipe_api \<Rightarrow> remote \<Rightarrow> pyval \<Rightarrow> pyval
     \<Rightarrow> pyval \<Rightarrow> pyval \<Rightarrow> outcome" where
  "create_asset L api remote status_id model_id asset_tag name =
     after_checks
       [precondition_str L asset_tag,
        precondition_int L status_id,
        precondition_int L model_id,
        precondition_str L name]
       (let payload = [(''status_id'', status_id), (''model_id'', model_id)];
            payload = add_to_dict L payload ''asset_tag'' asset_tag;
            payload = add_to_dict L payload ''name'' name;
            path = ''/api/v1/hardware''
        in http_post api remote path (PDict payload))"

definition delete_asset ::
    "pylib \<Rightarrow> snipe_api \<Rightarrow> remote \<Rightarrow> pyval \<Rightarrow>
     outcome" where
  "delete_asset L api remote asset_id =
     after_checks
       [precondition_int L asset_id]
       (let path = ''/api/v1/hardware/'' @ py_str L asset_id
        in http_delete api remote path PNone)"

definition get_assets ::
    "pylib \<Rightarrow> snipe_api \<Rightarrow> remote \<Rightarrow> pyval \<Rightarrow> pyval
     \<Rightarrow> pyval \<Rightarrow> pyval \<Rightarrow> pyval \<Rightarrow> pyval
     \<Rightarrow> pyval \<Rightarrow> pyval \<Rightarrow> pyval \<Rightarrow> pyval
     \<Rightarrow> pyval \<Rightarrow> pyval \<Rightarrow> pyval \<Rightarrow> outcome" where
  "get_assets L api remote limit offset search order_number sort' order model_id category_id
      manufacturer_id company_id location_id status status_id =
     after_checks
       [precondition_int L limit,
        precondition_int L offset,
        precondition_str L search,
        precondition_str L order_number,
        precondition_int L model_id,
        precondition_int L category_id,
        precondition_int L manufacturer_id,
        precondition_int L company_id,
        precondition_int L location_id,
        precondition_str L status,
        precondition_str L status_id,
        precondition_enum L sort' sort_columns,
        precondition_enum L order [''asc'', ''desc'']]
       (let path = ''/api/v1/hardware'';
            params = [];
            params = add_to_dict L params ''limit'' limit;
            params = add_to_dict L params ''offset'' offset;
            params = add_to_dict L params ''search'' search;
            params = add_to_dict L params ''order_number'' order_number;
            params = add_to_dict L params ''sort'' sort';
            params = add_to_dict L params ''order'' order;
            params = add_to_dict L params ''model_id'' model_id;
            params = add_to_dict L params ''category_id'' category_id;
            params = add_to_dict L params ''manufacturer_id'' manufacturer_id;
            params = add_to_dict L params ''company_id'' company_id;
            params = add_to_dict L params ''location_id'' location_id;
            params = add_to_dict L params ''status'' status;
            params = add_to_dict L params ''status_id'' status_id
        in http_get api remote path (PDict params))"

definition get_asset_by_id ::
    "pylib \<Rightarrow> snipe_api \<Rightarrow> remote \<Rightarrow> pyval \<Rightarrow>
     outcome" where
  "get_asset_by_id L api remote asset_id =
     after_checks
       [precondition_int L asset_id]
       (let path = ''/api/v1/hardware/'' @ py_str L asset_id
        in http_get api remote path PNone)"

definition get_asset_by_name ::
    "pylib \<Rightarrow> snipe_api \<Rightarrow> remote \<Rightarrow> string \<Rightarrow>
     outcome" where
  "get_asset_by_name L api remote name =
     by_name (get_assets L api remote PNone PNone (PStr name) PNone PNone PNone PNone PNone PNone PNone PNone PNone PNone) name"

definition get_asset_by_serial ::
    "pylib \<Rightarrow> snipe_api \<Rightarrow> remote \<Rightarrow> pyval \<Rightarrow>
     outcome" where
  "get_asset_by_serial L api remote asset_serial =
     after_checks
       [precondition_str L asset_serial]
       (let path = ''/api/v1/hardware/byserial/'' @ py_str L asset_serial
        in http_get api remote path PNone)"

definition get_asset_by_tag ::
    "pylib \<Rightarrow> snipe_api \<Rightarrow> remote \<Rightarrow> pyval \<Rightarrow>
     outcome" where
  "get_asset_by_tag L api remote asset_tag =
     after_checks
       [precondition_str L asset_tag]
       (let path = ''/api/v1/hardware/bytag/'' @ py_str L asset_tag
        in http_get api remote path PNone)"

definition get_assets_by_status_id ::
    "pylib \<Rightarrow> snipe_api \<Rightarrow> remote \<Rightarrow> pyval \<Rightarrow>
     outcome" where
  "get_assets_by_status_id L api remote status_label_id =
     after_checks
       [precondition_int L status_label_id]
       (let path = ''/api/v1/statuslabels/'' @ py_str L status_label_id @ ''/assetlist''
        in http_get api remote path PNone)"

definition update_asset ::
    "pylib \<Rightarrow> snipe_api \<Rightarrow> remote \<Rightarrow> pyval \<Rightarrow> pyval
     \<Rightarrow> pyval \<Rightarrow> pyval \<Rightarrow> pyval \<Rightarrow> pyval
     \<Rightarrow> pyval \<Rightarrow> pyval \<Rightarrow> pyval \<Rightarrow> pyval
     \<Rightarrow> pyval \<Rightarrow> pyval \<Rightarrow> pyval \<Rightarrow> pyval
     \<Rightarrow> pyval \<Rightarrow> pyval \<Rightarrow> pyval \<Rightarrow> outcome" where
  "update_asset L api remote asset_id asset_tag notes status_id model_id last_checkout
      assigned_to company_id serial order_number warranty_months purchase_cost purchase_date
      requestable archived rtd_location_id name =
     after_checks
       [precondition_int L asset_id,
        precondition_str L asset_tag,
        precondition_str L notes,
        precondition_int L status_id,
        precondition_int L model_id,
        precondition_date L last_checkout,
        precondition_int L assigned_to,
        precondition_int L company_id,
        precondition_str L serial,
        precondition_str L order_number,
        precondition_int L warranty_months,
        precondition_float L purchase_cost,
        precondition_date L purchase_date,
        precondition_bool L requestable,
        precondition_bool L archived,
        precondition_int L rtd_location_id,
        precondition_str L name]
       (let payload = [];
            payload = add_to_dict L payload ''asset_tag'' asset_tag;
            payload = add_to_dict L payload ''notes'' notes;
            payload = add_to_dict L payload ''status_id'' status_id;
            payload = add_to_dict L payload ''model_id'' model_id;
            payload = add_to_dict L payload ''last_checkout'' last_checkout;
            payload = add_to_dict L payload ''assigned_to'' assigned_to;
            payload = add_to_dict L payload ''company_id'' company_id;
            payload = add_to_dict L payload ''serial'' serial;
            payload = add_to_dict L payload ''order_number'' order_number;
            payload = add_to_dict L payload ''warranty_months'' warranty_months;
            payload = add_to_dict L payload ''purchase_cost'' purchase_cost;
            payload = add_to_dict L payload ''purchase_date'' purchase_date;
            payload = add_to_dict L payload ''requestable'' requestable;
            payload = add_to_dict L payload ''archived'' archived;
            payload = add_to_dict L payload ''rtd_location_id'' rtd_location_id;
            payload = add_to_dict L payload ''name'' name;
            path = ''/api/v1/hardware/'' @ py_str L asset_id
        in http_patch api remote path (PDict payload))"

subsection \<open>Categories\<close>

definition create_category ::
    "pylib \<Rightarrow> snipe_api \<Rightarrow> remote \<Rightarrow> pyval \<Rightarrow> pyval
     \<Rightarrow> pyval \<Rightarrow> pyval \<Rightarrow> pyval \<Rightarrow> outcome" where
  "create_category L api remote name category_type use_default_eula require_acceptance
      checkin_email =
     after_checks
       [precondition_str L name,
        precondition_enum L category_type [''asset'', ''accessory'', ''consumable'', ''component'', ''license''],
        precondition_bool L use_default_eula,
        precondition_bool L require_acceptance,
        precondition_bool L checkin_email]
       (let payload = [(''name'', name), (''category_type'', category_type)];
            payload = add_to_dict L payload ''use_default_uela'' use_default_eula;
            payload = add_to_dict L payload ''require_acceptance'' require_acceptance;
            payload = add_to_dict L payload ''checkin_email'' checkin_email;
            path = ''/api/v1/categories''
        in http_post api remote path (PDict payload))"

definition delete_category ::
    "pylib \<Rightarrow> snipe_api \<Rightarrow> remote \<Rightarrow> pyval \<Rightarrow>
     outcome" where
  "delete_category L api remote category_id =
     after_checks
       [precondition_int L category_id]
       (let path = ''/api/v1/categories/'' @ py_str L category_id
        in http_delete api remote path PNone)"

definition get_categories ::
    "pylib \<Rightarrow> snipe_api \<Rightarrow> remote \<Rightarrow> pyval \<Rightarrow> pyval
     \<Rightarrow> pyval \<Rightarrow> pyval \<Rightarrow> pyval \<Rightarrow> outcome" where
  "get_categories L api remote limit offset search sort' order =
     after_checks
       [precondition_int L limit,
        precondition_int L offset,
        precondition_str L search,
        precondition_str L sort',
        precondition_enum L order [''asc'', ''desc'']]
       (let payload = [];
            payload = add_to_dict L payload ''limit'' limit;
            payload = add_to_dict L payload ''offset'' offset;
            payload = add_to_dict L payload ''search'' search;
            payload = add_to_dict L payload ''sort'' sort';
            payload = add_to_dict L payload ''order'' order;
            path = ''/api/v1/categories''
        in http_get api remote path (PDict payload))"

definition get_category_by_id ::
    "pylib \<Rightarrow> snipe_api \<Rightarrow> remote \<Rightarrow> pyval \<Rightarrow>
     outcome" where
  "get_category_by_id L api remote category_id =
     after_checks
       [precondition_int L category_id]
       (let path = ''/api/v1/categories/'' @ py_str L category_id
        in http_get api remote path PNone)"

definition get_category_by_name ::
    "pylib \<Rightarrow> snipe_api \<Rightarrow> remote \<Rightarrow> string \<Rightarrow>
     outcome" where
  "get_category_by_name L api remote name =
     by_name (get_categories L api remote PNone PNone (PStr name) PNone PNone) name"

definition update_category ::
    "pylib \<Rightarrow> snipe_api \<Rightarrow> remote \<Rightarrow> pyval \<Rightarrow> pyval
     \<Rightarrow> pyval \<Rightarrow> pyval \<Rightarrow> pyval \<Rightarrow> pyval
     \<Rightarrow> outcome" where
  "update_category L api remote category_id name category_type use_default_eula
      require_acceptance checkin_email =
     after_checks
       [precondition_int L category_id,
        precondition_str L name,
        precondition_str L category_type,
        precondition_bool L use_default_eula,
        precondition_bool L require_acceptance,
        precondition_bool L checkin_email]
       (let payload = [(''name'', name), (''category_type'', category_type)];
            payload = add_to_dict L payload ''use_default_uela'' use_default_eula;
            payload = add_to_dict L payload ''require_acceptance'' require_acceptance;
            payload = add_to_dict L payload ''checkin_email'' checkin_email;
            path = ''/api/v1/categories/'' @ py_str L category_id
        in http_patch api remote path (PDict payload))"

subsection \<open>Companies\<close>

definition create_company ::
    "pylib \<Rightarrow> snipe_api \<Rightarrow> remote \<Rightarrow> pyval \<Rightarrow>
     outcome" where
  "create_company L api remote name =
     after_checks
       [precondition_str L name]
       (let payload = [(''name'', name)];
            path = ''/api/v1/companies''
        in http_post api remote path (PDict payload))"

definition delete_company ::
    "pylib \<Rightarrow> snipe_api \<Rightarrow> remote \<Rightarrow> pyval \<Rightarrow>
     outcome" where
  "delete_company L api remote company_id =
     after_checks
       [precondition_int L company_id]
       (let path = ''/api/v1/companies/'' @ py_str L company_id
        in returning_none (http_delete api remote path PNone))"

definition get_companies ::
    "pylib \<Rightarrow> snipe_api \<Rightarrow> remote \<Rightarrow> pyval \<Rightarrow>
     outcome" where
  "get_companies L api remote search =
     after_checks
       [precondition_str L search]
       (let payload = [];
            payload = add_to_dict L payload ''search'' search;
            path = ''/api/v1/companies''
        in http_get api remote path PNone)"

definition get_company_by_id ::
    "pylib \<Rightarrow> snipe_api \<Rightarrow> remote \<Rightarrow> pyval \<Rightarrow>
     outcome" where
  "get_company_by_id L api remote company_id =
     after_checks
       [precondition_int L company_id]
       (let path = ''/api/v1/companies/'' @ py_str L company_id
        in http_get api remote path PNone)"

definition get_company_by_name ::
    "pylib \<Rightarrow> snipe_api \<Rightarrow> remote \<Rightarrow> string \<Rightarrow>
     outcome" where
  "get_company_by_name L api remote name =
     by_name (get_companies L api remote (PStr name)) name"

definition update_company ::
    "pylib \<Rightarrow> snipe_api \<Rightarrow> remote \<Rightarrow> pyval \<Rightarrow> pyval
     \<Rightarrow> outcome" where
  "update_company L api remote company_id name =
     after_checks
       [precondition_int L company_id,
        precondition_str L name]
       (let payload = [(''name'', name)];
            path = ''/api/v1/companies/'' @ py_str L company_id
        in http_patch api remote path (PDict payload))"

subsection \<open>Components\<close>

definition create_component ::
    "pylib \<Rightarrow> snipe_api \<Rightarrow> remote \<Rightarrow> pyval \<Rightarrow> pyval
     \<Rightarrow> pyval \<Rightarrow> outcome" where
  "create_component L api remote name qty category_id =
     after_checks
       [precondition_str L name,
        precondition_int L qty,
        precondition_int L category_id]
       (let payload = [(''name'', name), (''qty'', qty), (''category_id'', category_id)];
            path = ''/api/v1/components''
        in http_post api remote path (PDict payload))"

definition get_components ::
    "pylib \<Rightarrow> snipe_api \<Rightarrow> remote \<Rightarrow> pyval \<Rightarrow> pyval
     \<Rightarrow> pyval \<Rightarrow> pyval \<Rightarrow> pyval \<Rightarrow> pyval
     \<Rightarrow> pyval \<Rightarrow> outcome" where
  "get_components L api remote limit offset search order_number sort' order expand =
     after_checks
       [precondition_int L limit,
        precondition_int L offset,
        precondition_str L search,
        precondition_str L order_number,
        precondition_enum L order [''asc'', ''desc''],
        precondition_enum L sort' sort_columns,
        precondition_bool L expand]
       (let payload = [];
            payload = add_to_dict L payload ''limit'' limit;
            payload = add_to_dict L payload ''offset'' offset;
            payload = add_to_dict L payload ''search'' search;
            payload = add_to_dict L payload ''order_number'' order_number;
            payload = add_to_dict L payload ''sort'' sort';
            payload = add_to_dict L payload ''order'' order;
            payload = add_to_dict L payload ''expand'' expand;
            path = ''/api/v1/components''
        in http_get api remote path (PDict payload))"

definition get_component_by_id ::
    "pylib \<Rightarrow> snipe_api \<Rightarrow> remote \<Rightarrow> pyval \<Rightarrow>
     outcome" where
  "get_component_by_id L api remote component_id =
     after_checks
       [precondition_int L component_id]
       (let path = ''/api/v1/components/'' @ py_str L component_id
        in http_get api remote path PNone)"

definition get_component_by_name ::
    "pylib \<Rightarrow> snipe_api \<Rightarrow> remote \<Rightarrow> string \<Rightarrow>
     outcome" where
  "get_component_by_name L api remote name =
     by_name (get_components L api remote PNone PNone (PStr name) PNone PNone PNone PNone) name"

subsection \<open>Consumables\<close>

definition create_consumable ::
    "pylib \<Rightarrow> snipe_api \<Rightarrow> remote \<Rightarrow> pyval \<Rightarrow> pyval
     \<Rightarrow> pyval \<Rightarrow> outcome" where
  "create_consumable L api remote name qty category_id =
     after_checks
       [precondition_str L name,
        precondition_int L qty,
        precondition_int L category_id]
       (let payload = [(''name'', name), (''qty'', qty), (''category_id'', category_id)];
            path = ''/api/v1/consumables''
        in http_post api remote path (PDict payload))"

definition get_consumables ::
    "pylib \<Rightarrow> snipe_api \<Rightarrow> remote \<Rightarrow> pyval \<Rightarrow> pyval
     \<Rightarrow> pyval \<Rightarrow> pyval \<Rightarrow> pyval \<Rightarrow> pyval
     \<Rightarrow> pyval \<Rightarrow> pyval \<Rightarrow> pyval \<Rightarrow> pyval
     \<Rightarrow> outcome" where
  "get_consumables L api remote limit offset search order_number sort' order expand
      category_id company_id manufacturer_id =
     after_checks
       [precondition_int L limit,
        precondition_int L offset,
        precondition_str L search,
        precondition_str L order_number,
        precondition_enum L sort' sort_columns,
        precondition_enum L order [''asc'', ''desc''],
        precondition_bool L expand,
        precondition_int L category_id,
        precondition_int L company_id,
        precondition_int L manufacturer_id]
       (let payload = [];
            payload = add_to_dict L payload ''limit'' limit;
            payload = add_to_dict L payload ''offset'' offset;
            payload = add_to_dict L payload ''search'' search;
            payload = add_to_dict L payload ''order_number'' order_number;
            payload = add_to_dict L payload ''sort'' sort';
            payload = add_to_dict L payload ''order'' order;
            payload = add_to_dict L payload ''expand'' expand;
            payload = add_to_dict L payload ''category_id'' category_id;
            payload = add_to_dict L payload ''company_id'' company_id;
            payload = add_to_dict L payload ''manufacturer_id'' manufacturer_id;
            path = ''/api/v1/consumables''
        in http_get api remote path (PDict payload))"

definition get_consumable_by_id ::
    "pylib \<Rightarrow> snipe_api \<Rightarrow> remote \<Rightarrow> pyval \<Rightarrow>
     outcome" where
  "get_consumable_by_id L api remote consumable_id =
     after_checks
       [precondition_int L consumable_id]
       (let path = ''/api/v1/consumables/'' @ py_str L consumable_id
        in http_get api remote path PNone)"

definition get_consumable_by_name ::
    "pylib \<Rightarrow> snipe_api \<Rightarrow> remote \<Rightarrow> string \<Rightarrow>
     outcome" where
  "get_consumable_by_name L api remote name =
     by_name (get_consumables L api remote PNone PNone (PStr name) PNone PNone PNone PNone PNone PNone PNone) name"

subsection \<open>Fields\<close>

definition create_field ::
    "pylib \<Rightarrow> snipe_api \<Rightarrow> remote \<Rightarrow> pyval \<Rightarrow> pyval
     \<Rightarrow> pyval \<Rightarrow> pyval \<Rightarrow> pyval \<Rightarrow> pyval
     \<Rightarrow> pyval \<Rightarrow> pyval \<Rightarrow> outcome" where
  "create_field L api remote name element field_values fmt custom_format help_text
      show_in_email field_encrypted =
     after_checks
       [precondition_str L name,
        precondition_enum L element [''text'', ''listbox'', ''textarea''],
        precondition_list L field_values (PStr ''str''),
        precondition_enum L fmt
          [''ANY'', ''CUSTOM REGEX'', ''ALPHA'', ''ALPHA-DASH'', ''NUMERIC'', ''ALPHA-NUMERIC'',
           ''EMAIL'', ''DATE'', ''URL'', ''IP'', ''IPV4'', ''IPV6'', ''MAC'', ''BOOLEAN''],
        precondition_str L custom_format,
        precondition_str L help_text,
        precondition_bool L show_in_email,
        precondition_bool L field_encrypted]
       (let payload = [(''name'', name), (''element'', element)];
            payload = add_to_dict L payload ''field_values'' field_values;
            payload = add_to_dict L payload ''format'' fmt;
            payload = add_to_dict L payload ''custom_format'' custom_format;
            payload = add_to_dict L payload ''help_text'' help_text;
            payload = add_to_dict L payload ''show_in_email'' show_in_email;
            payload = add_to_dict L payload ''field_encrypted'' field_encrypted;
            path = ''/api/v1/fields''
        in http_post api remote path (PDict payload))"

definition delete_field ::
    "pylib \<Rightarrow> snipe_api \<Rightarrow> remote \<Rightarrow> pyval \<Rightarrow>
     outcome" where
  "delete_field L api remote field_id =
     after_checks
       [precondition_int L field_id]
       (let path = ''/api/v1/fields/'' @ py_str L field_id
        in http_delete api remote path PNone)"

definition get_fields ::
    "snipe_api \<Rightarrow> remote \<Rightarrow> outcome" where
  "get_fields api remote =
     (let path = ''/api/v1/fields''
      in http_get api remote path PNone)"

definition get_field_by_id ::
    "pylib \<Rightarrow> snipe_api \<Rightarrow> remote \<Rightarrow> pyval \<Rightarrow>
     outcome" where
  "get_field_by_id L api remote field_id =
     after_checks
       [precondition_int L field_id]
       (let path = ''/api/v1/fields/'' @ py_str L field_id
        in http_get api remote path PNone)"

definition get_field_by_name ::
    "snipe_api \<Rightarrow> remote \<Rightarrow> string \<Rightarrow> outcome" where
  "get_field_by_name api remote name =
     by_name (get_fields api remote) name"

definition update_field ::
    "pylib \<Rightarrow> snipe_api \<Rightarrow> remote \<Rightarrow> pyval \<Rightarrow> pyval
     \<Rightarrow> pyval \<Rightarrow> pyval \<Rightarrow> pyval \<Rightarrow> pyval
     \<Rightarrow> pyval \<Rightarrow> pyval \<Rightarrow> pyval \<Rightarrow> outcome" where
  "update_field L api remote field_id name element field_values fmt custom_format help_text
      show_in_email field_encrypted =
     after_checks
       [precondition_int L field_id,
        precondition_str L name,
        precondition_enum L element [''text'', ''listbox'', ''textarea''],
        precondition_list L field_values (PStr ''str''),
        precondition_enum L fmt
          [''ANY'', ''CUSTOM REGEX'', ''ALPHA'', ''ALPHA-DASH'', ''NUMERIC'', ''ALPHA-NUMERIC'',
           ''EMAIL'', ''DATE'', ''URL'', ''IP'', ''IPV4'', ''IPV6'', ''MAC'', ''BOOLEAN''],
        precondition_str L custom_format,
        precondition_str L help_text,
        precondition_bool L show_in_email,
        precondition_bool L field_encrypted]
       (let payload = [(''name'', name), (''element'', element)];
            payload = add_to_dict L payload ''field_values'' field_values;
            payload = add_to_dict L payload ''format'' fmt;
            payload = add_to_dict L payload ''custom_format'' custom_format;
            payload = add_to_dict L payload ''help_text'' help_text;
            payload = add_to_dict L payload ''show_in_email'' show_in_email;
            payload = add_to_dict L payload ''field_encrypted'' field_encrypted;
            path = ''/api/v1/fields/'' @ py_str L field_id
        in http_patch api remote path (PDict payload))"

subsection \<open>Fieldsets\<close>

definition create_fieldset ::
    "pylib \<Rightarrow> snipe_api \<Rightarrow> remote \<Rightarrow> pyval \<Rightarrow>
     outcome" where
  "create_fieldset L api remote name =
     after_checks
       [precondition_str L name]
       (let payload = [(''name'', name)];
            path = ''/api/v1/fieldsets''
        in http_post api remote path (PDict payload))"

definition delete_fieldset ::
    "pylib \<Rightarrow> snipe_api \<Rightarrow> remote \<Rightarrow> pyval \<Rightarrow>
     outcome" where
  "delete_fieldset L api remote fieldset_id =
     after_checks
       [precondition_int L fieldset_id]
       (let path = ''/api/v1/fieldsets/'' @ py_str L fieldset_id
        in http_delete api remote path PNone)"

definition get_fieldsets ::
    "snipe_api \<Rightarrow> remote \<Rightarrow> outcome" where
  "get_fieldsets api remote =
     (let path = ''/api/v1/fieldsets''
      in http_get api remote path PNone)"

definition get_fieldset_by_id ::
    "pylib \<Rightarrow> snipe_api \<Rightarrow> remote \<Rightarrow> pyval \<Rightarrow>
     outcome" where
  "get_fieldset_by_id L api remote fieldset_id =
     after_checks
       [precondition_int L fieldset_id]
       (let path = ''/api/v1/fieldsets/'' @ py_str L fieldset_id
        in http_get api remote path PNone)"

definition get_fieldset_by_name ::
    "snipe_api \<Rightarrow> remote \<Rightarrow> string \<Rightarrow> outcome" where
  "get_fieldset_by_name api remote name =
     by_name (get_fieldsets api remote) name"

definition update_fieldset ::
    "pylib \<Rightarrow> snipe_api \<Rightarrow> remote \<Rightarrow> pyval \<Rightarrow> pyval
     \<Rightarrow> outcome" where
  "update_fieldset L api remote fieldset_id name =
     after_checks
       [precondition_int L fieldset_id,
        precondition_str L name]
       (let payload = [(''name'', name)];
            path = ''/api/v1/fieldsets/'' @ py_str L fieldset_id
        in http_put api remote path (PDict payload))"

subsection \<open>Licenses\<close>

definition create_license ::
    "pylib \<Rightarrow> snipe_api \<Rightarrow> remote \<Rightarrow> pyval \<Rightarrow> pyval
     \<Rightarrow> pyval \<Rightarrow> pyval \<Rightarrow> pyval \<Rightarrow> pyval
     \<Rightarrow> pyval \<Rightarrow> pyval \<Rightarrow> pyval \<Rightarrow> pyval
     \<Rightarrow> pyval \<Rightarrow> pyval \<Rightarrow> pyval \<Rightarrow> pyval
     \<Rightarrow> pyval \<Rightarrow> pyval \<Rightarrow> pyval \<Rightarrow> pyval
     \<Rightarrow> pyval \<Rightarrow> outcome" where
  "create_license L api remote name seats category_id product_key company_id expiration_date
      license_email license_name maintained manufacturer_id notes order_number purchase_cost
      purchase_date purchase_order reassignable serial supplier_id termination_date =
     after_checks
       [precondition_str L name,
        precondition_int L seats,
        precondition_int L category_id,
        precondition_str L product_key,
        precondition_int L company_id,
        precondition_date L expiration_date,
        precondition_str L license_email,
        precondition_str L license_name,
        precondition_bool L maintained,
        precondition_int L manufacturer_id,
        precondition_str L notes,
        precondition_int L order_number,
        precondition_float L purchase_cost,
        precondition_date L purchase_date,
        precondition_str L purchase_order,
        precondition_bool L reassignable,
        precondition_str L serial,
        precondition_int L supplier_id,
        precondition_date L termination_date]
       (let payload = [(''name'', name), (''seats'', seats), (''category_id'', category_id)];
            payload = add_to_dict L payload ''product_key'' product_key;
            payload = add_to_dict L payload ''company_id'' company_id;
            payload = add_to_dict L payload ''expiration_date'' expiration_date;
            payload = add_to_dict L payload ''license_email'' license_email;
            payload = add_to_dict L payload ''license_name'' license_name;
            payload = add_to_dict L payload ''maintained'' maintained;
            payload = add_to_dict L payload ''manufacturer_id'' manufacturer_id;
            payload = add_to_dict L payload ''notes'' notes;
            payload = add_to_dict L payload ''order_number'' order_number;
            payload = add_to_dict L payload ''purchase_cost'' purchase_cost;
            payload = add_to_dict L payload ''purchase_date'' purchase_date;
            payload = add_to_dict L payload ''purchase_order'' purchase_order;
            payload = add_to_dict L payload ''reassignable'' reassignable;
            payload = add_to_dict L payload ''serial'' serial;
            payload = add_to_dict L payload ''supplier_id'' supplier_id;
            payload = add_to_dict L payload ''termination_date'' termination_date;
            path = ''/api/v1/licenses''
        in http_post api remote path (PDict payload))"

definition delete_license ::
    "pylib \<Rightarrow> snipe_api \<Rightarrow> remote \<Rightarrow> pyval \<Rightarrow>
     outcome" where
  "delete_license L api remote license_id =
     after_checks
       [precondition_int L license_id]
       (let path = ''/api/v1/licenses/'' @ py_str L license_id
        in http_delete api remote path PNone)"

definition get_licenses ::
    "pylib \<Rightarrow> snipe_api \<Rightarrow> remote \<Rightarrow> pyval \<Rightarrow> pyval
     \<Rightarrow> pyval \<Rightarrow> pyval \<Rightarrow> pyval \<Rightarrow> pyval
     \<Rightarrow> pyval \<Rightarrow> outcome" where
  "get_licenses L api remote limit offset search order_number sort' order expand =
     after_checks
       [precondition_int L limit,
        precondition_int L offset,
        precondition_str L search,
        precondition_str L order_number,
        precondition_enum L sort' sort_columns,
        precondition_enum L order [''asc'', ''desc''],
        precondition_bool L expand]
       (let params = [];
            params = add_to_dict L params ''limit'' limit;
            params = add_to_dict L params ''offset'' offset;
            params = add_to_dict L params ''search'' search;
            params = add_to_dict L params ''order_number'' order_number;
            params = add_to_dict L params ''sort'' sort';
            params = add_to_dict L params ''order'' order;
            params = add_to_dict L params ''expand'' expand;
            path = ''/api/v1/licenses''
        in http_get api remote path (PDict params))"

definition get_license_by_id ::
    "pylib \<Rightarrow> snipe_api \<Rightarrow> remote \<Rightarrow> pyval \<Rightarrow>
     outcome" where
  "get_license_by_id L api remote license_id =
     after_checks
       [precondition_int L license_id]
       (let path = ''/api/v1/licenses/'' @ py_str L license_id
        in http_get api remote path PNone)"

definition get_license_by_name ::
    "pylib \<Rightarrow> snipe_api \<Rightarrow> remote \<Rightarrow> string \<Rightarrow>
     outcome" where
  "get_license_by_name L api remote name =
     by_name (get_licenses L api remote PNone PNone (PStr name) PNone PNone PNone PNone) name"

definition update_license ::
    "pylib \<Rightarrow> snipe_api \<Rightarrow> remote \<Rightarrow> pyval \<Rightarrow> pyval
     \<Rightarrow> pyval \<Rightarrow> pyval \<Rightarrow> pyval \<Rightarrow> pyval
     \<Rightarrow> pyval \<Rightarrow> pyval \<Rightarrow> pyval \<Rightarrow> pyval
     \<Rightarrow> pyval \<Rightarrow> pyval \<Rightarrow> pyval \<Rightarrow> pyval
     \<Rightarrow> pyval \<Rightarrow> pyval \<Rightarrow> pyval \<Rightarrow> pyval
     \<Rightarrow> outcome" where
  "update_license L api remote license_id name seats company_id expiration_date license_email
      license_name maintained manufacturer_id notes order_number purchase_cost purchase_date
      purchase_order reassignable serial supplier_id termination_date =
     after_checks
       [precondition_int L license_id,
        precondition_str L name,
        precondition_int L seats,
        precondition_int L company_id,
        precondition_date L expiration_date,
        precondition_str L license_email,
        precondition_str L license_name,
        precondition_bool L maintained,
        precondition_int L manufacturer_id,
        precondition_str L notes,
        precondition_int L order_number,
        precondition_float L purchase_cost,
        precondition_date L purchase_date,
        precondition_str L purchase_order,
        precondition_bool L reassignable,
        precondition_str L serial,
        precondition_int L supplier_id,
        precondition_date L termination_date]
       (let payload = [];
            payload = add_to_dict L payload ''name'' name;
            payload = add_to_dict L payload ''seats'' seats;
            payload = add_to_dict L payload ''company_id'' company_id;
            payload = add_to_dict L payload ''expiration_date'' expiration_date;
            payload = add_to_dict L payload ''license_email'' license_email;
            payload = add_to_dict L payload ''license_name'' license_name;
            payload = add_to_dict L payload ''maintained'' maintained;
            payload = add_to_dict L payload ''manufacturer_id'' manufacturer_id;
            payload = add_to_dict L payload ''notes'' notes;
            payload = add_to_dict L payload ''order_number'' order_number;
            payload = add_to_dict L payload ''purchase_cost'' purchase_cost;
            payload = add_to_dict L payload ''purchase_date'' purchase_date;
            payload = add_to_dict L payload ''purchase_order'' purchase_order;
            payload = add_to_dict L payload ''reassignable'' reassignable;
            payload = add_to_dict L payload ''serial'' serial;
            payload = add_to_dict L payload ''supplier_id'' supplier_id;
            payload = add_to_dict L payload ''termination_date'' termination_date;
            path = ''/api/v1/licenses/'' @ py_str L license_id
        in http_patch api remote path (PDict payload))"

subsection \<open>Locations\<close>

definition create_location ::
    "pylib \<Rightarrow> snipe_api \<Rightarrow> remote \<Rightarrow> pyval \<Rightarrow> pyval
     \<Rightarrow> pyval \<Rightarrow> pyval \<Rightarrow> pyval \<Rightarrow> pyval
     \<Rightarrow> pyval \<Rightarrow> outcome" where
  "create_location L api remote name address address2 city state country zipcode =
     after_checks
       [precondition_str L name,
        precondition_str L address,
        precondition_str L address2,
        precondition_str L city,
        precondition_str L state,
        precondition_str L country,
        precondition_str L zipcode]
       (let payload = [(''name'', name)];
            payload = add_to_dict L payload ''address'' address;
            payload = add_to_dict L payload ''address2'' address2;
            payload = add_to_dict L payload ''city'' city;
            payload = add_to_dict L payload ''state'' state;
            payload = add_to_dict L payload ''country'' country;
            payload = add_to_dict L payload ''zip'' zipcode;
            path = ''/api/v1/locations''
        in http_post api remote path (PDict payload))"

definition delete_location ::
    "pylib \<Rightarrow> snipe_api \<Rightarrow> remote \<Rightarrow> pyval \<Rightarrow>
     outcome" where
  "delete_location L api remote location_id =
     after_checks
       [precondition_int L location_id]
       (let path = ''/api/v1/locations/'' @ py_str L location_id
        in http_delete api remote path PNone)"

definition get_locations ::
    "pylib \<Rightarrow> snipe_api \<Rightarrow> remote \<Rightarrow> pyval \<Rightarrow> pyval
     \<Rightarrow> pyval \<Rightarrow> pyval \<Rightarrow> pyval \<Rightarrow> outcome" where
  "get_locations L api remote limit offset search sort' order =
     after_checks
       [precondition_int L limit,
        precondition_int L offset,
        precondition_str L search,
        precondition_enum L sort' sort_columns,
        precondition_enum L order [''asc'', ''desc'']]
       (let payload = [];
            payload = add_to_dict L payload ''limit'' limit;
            payload = add_to_dict L payload ''offset'' offset;
            payload = add_to_dict L payload ''search'' search;
            payload = add_to_dict L payload ''sort'' sort';
            payload = add_to_dict L payload ''order'' order;
            path = ''/api/v1/locations''
        in http_get api remote path (PDict payload))"

definition get_location_by_id ::
    "pylib \<Rightarrow> snipe_api \<Rightarrow> remote \<Rightarrow> pyval \<Rightarrow>
     outcome" where
  "get_location_by_id L api remote location_id =
     after_checks
       [precondition_int L location_id]
       (let path = ''/api/v1/locations/'' @ py_str L location_id
        in http_get api remote path PNone)"

definition get_location_by_name ::
    "pylib \<Rightarrow> snipe_api \<Rightarrow> remote \<Rightarrow> string \<Rightarrow>
     outcome" where
  "get_location_by_name L api remote name =
     by_name (get_locations L api remote PNone PNone (PStr name) PNone PNone) name"

definition update_location ::
    "pylib \<Rightarrow> snipe_api \<Rightarrow> remote \<Rightarrow> pyval \<Rightarrow> pyval
     \<Rightarrow> pyval \<Rightarrow> pyval \<Rightarrow> pyval \<Rightarrow> pyval
     \<Rightarrow> pyval \<Rightarrow> pyval \<Rightarrow> outcome" where
  "update_location L api remote location_id name address address2 city state country zipcode =
     after_checks
       [precondition_int L location_id,
        precondition_str L name,
        precondition_str L address,
        precondition_str L address2,
        precondition_str L city,
        precondition_str L state,
        precondition_str L country,
        precondition_str L zipcode]
       (let payload = [];
            payload = add_to_dict L payload ''name'' name;
            payload = add_to_dict L payload ''address'' address;
            payload = add_to_dict L payload ''address2'' address2;
            payload = add_to_dict L payload ''city'' city;
            payload = add_to_dict L payload ''state'' state;
            payload = add_to_dict L payload ''country'' country;
            payload = add_to_dict L payload ''zip'' zipcode;
            path = ''/api/v1/locations/'' @ py_str L location_id
        in http_patch api remote path (PDict payload))"

subsection \<open>Maintenances\<close>

definition create_maintenace ::
    "pylib \<Rightarrow> snipe_api \<Rightarrow> remote \<Rightarrow> pyval \<Rightarrow> pyval
     \<Rightarrow> pyval \<Rightarrow> pyval \<Rightarrow> pyval \<Rightarrow> pyval
     \<Rightarrow> outcome" where
  "create_maintenace L api remote name address address2 state country zipcode =
     after_checks
       [precondition_str L name,
        precondition_str L address,
        precondition_str L address2,
        precondition_str L state,
        precondition_str L country,
        precondition_str L zipcode]
       (let payload = [(''name'', name)];
            payload = add_to_dict L payload ''address'' address;
            payload = add_to_dict L payload ''address2'' address2;
            payload = add_to_dict L payload ''state'' state;
            payload = add_to_dict L payload ''country'' country;
            payload = add_to_dict L payload ''zip'' zipcode;
            path = ''/api/v1/maintenances''
        in http_post api remote path (PDict payload))"

definition get_maintenaces ::
    "pylib \<Rightarrow> snipe_api \<Rightarrow> remote \<Rightarrow> pyval \<Rightarrow> pyval
     \<Rightarrow> pyval \<Rightarrow> pyval \<Rightarrow> pyval \<Rightarrow> pyval
     \<Rightarrow> outcome" where
  "get_maintenaces L api remote limit offset search sort' order asset_id =
     after_checks
       [precondition_int L limit,
        precondition_int L offset,
        precondition_str L search,
        precondition_enum L sort' sort_columns,
        precondition_enum L order [''asc'', ''desc''],
        precondition_int L asset_id]
       (let payload = [];
            payload = add_to_dict L payload ''limit'' limit;
            payload = add_to_dict L payload ''offset'' offset;
            payload = add_to_dict L payload ''search'' search;
            payload = add_to_dict L payload ''sort'' sort';
            payload = add_to_dict L payload ''order'' order;
            payload = add_to_dict L payload ''asset_id'' asset_id;
            path = ''/api/v1/maintenances''
        in http_get api remote path (PDict payload))"

subsection \<open>Manufacturers\<close>

definition create_manufacturer ::
    "pylib \<Rightarrow> snipe_api \<Rightarrow> remote \<Rightarrow> pyval \<Rightarrow>
     outcome" where
  "create_manufacturer L api remote name =
     after_checks
       [precondition_str L name]
       (let payload = [(''name'', name)];
            path = ''/api/v1/manufacturers''
        in http_post api remote path (PDict payload))"

definition delete_manufacturer ::
    "pylib \<Rightarrow> snipe_api \<Rightarrow> remote \<Rightarrow> pyval \<Rightarrow>
     outcome" where
  "delete_manufacturer L api remote manufacturer_id =
     after_checks
       [precondition_int L manufacturer_id]
       (let path = ''/api/v1/manufacturers/'' @ py_str L manufacturer_id
        in http_delete api remote path PNone)"

definition get_manufacturers ::
    "pylib \<Rightarrow> snipe_api \<Rightarrow> remote \<Rightarrow> pyval \<Rightarrow>
     outcome" where
  "get_manufacturers L api remote search =
     after_checks
       [precondition_str L search]
       (let payload = [];
            payload = add_to_dict L payload ''search'' search;
            path = ''/api/v1/manufacturers''
        in http_get api remote path (PDict payload))"

definition get_manufacturer_by_id ::
    "pylib \<Rightarrow> snipe_api \<Rightarrow> remote \<Rightarrow> pyval \<Rightarrow>
     outcome" where
  "get_manufacturer_by_id L api remote manufacturer_id =
     after_checks
       [precondition_int L manufacturer_id]
       (let path = ''/api/v1/manufacturers/'' @ py_str L manufacturer_id
        in http_get api remote path PNone)"

definition get_manufacturer_by_name ::
    "pylib \<Rightarrow> snipe_api \<Rightarrow> remote \<Rightarrow> string \<Rightarrow>
     outcome" where
  "get_manufacturer_by_name L api remote name =
     by_name (get_manufacturers L api remote (PStr name)) name"

definition update_manufacturer ::
    "pylib \<Rightarrow> snipe_api \<Rightarrow> remote \<Rightarrow> pyval \<Rightarrow> pyval
     \<Rightarrow> outcome" where
  "update_manufacturer L api remote manufacturer_id name =
     after_checks
       [precondition_int L manufacturer_id,
        precondition_str L name]
       (let payload = [(''name'', name)];
            path = ''/api/v1/manufacturers''
        in http_patch api remote path (PDict payload))"

subsection \<open>Models\<close>

definition create_model ::
    "pylib \<Rightarrow> snipe_api \<Rightarrow> remote \<Rightarrow> pyval \<Rightarrow> pyval
     \<Rightarrow> pyval \<Rightarrow> pyval \<Rightarrow> pyval \<Rightarrow> pyval
     \<Rightarrow> outcome" where
  "create_model L api remote name category_id manufacturer_id model_number eol fieldset_id =
     after_checks
       [precondition_str L name,
        precondition_str L model_number,
        precondition_int L category_id,
        precondition_int L manufacturer_id,
        precondition_int L eol,
        precondition_int L fieldset_id]
       (let payload = [(''name'', name), (''category_id'', category_id), (''manufacturer_id'', manufacturer_id)];
            payload = add_to_dict L payload ''model_number'' model_number;
            payload = add_to_dict L payload ''eol'' eol;
            payload = add_to_dict L payload ''fieldset_id'' fieldset_id;
            path = ''/api/v1/models''
        in http_post api remote path (PDict payload))"

definition delete_model ::
    "pylib \<Rightarrow> snipe_api \<Rightarrow> remote \<Rightarrow> pyval \<Rightarrow>
     outcome" where
  "delete_model L api remote model_id =
     after_checks
       [precondition_int L model_id]
       (let path = ''/api/v1/models/'' @ py_str L model_id
        in http_delete api remote path PNone)"

definition get_models ::
    "pylib \<Rightarrow> snipe_api \<Rightarrow> remote \<Rightarrow> pyval \<Rightarrow> pyval
     \<Rightarrow> pyval \<Rightarrow> pyval \<Rightarrow> pyval \<Rightarrow> outcome" where
  "get_models L api remote limit offset search sort' order =
     after_checks
       [precondition_int L limit,
        precondition_int L offset,
        precondition_str L search,
        precondition_enum L sort' sort_columns,
        precondition_enum L order [''asc'', ''desc'']]
       (let payload = [];
            payload = add_to_dict L payload ''limit'' limit;
            payload = add_to_dict L payload ''offset'' offset;
            payload = add_to_dict L payload ''search'' search;
            payload = add_to_dict L payload ''sort'' sort';
            payload = add_to_dict L payload ''order'' order;
            path = ''/api/v1/models''
        in http_get api remote path (PDict payload))"

definition get_model_by_id ::
    "pylib \<Rightarrow> snipe_api \<Rightarrow> remote \<Rightarrow> pyval \<Rightarrow>
     outcome" where
  "get_model_by_id L api remote model_id =
     after_checks
       [precondition_int L model_id]
       (let path = ''/api/v1/models/'' @ py_str L model_id
        in http_get api remote path PNone)"

definition get_model_by_name ::
    "pylib \<Rightarrow> snipe_api \<Rightarrow> remote \<Rightarrow> string \<Rightarrow>
     outcome" where
  "get_model_by_name L api remote name =
     by_name (get_models L api remote PNone PNone (PStr name) PNone PNone) name"

definition update_model ::
    "pylib \<Rightarrow> snipe_api \<Rightarrow> remote \<Rightarrow> pyval \<Rightarrow> pyval
     \<Rightarrow> pyval \<Rightarrow> pyval \<Rightarrow> pyval \<Rightarrow> pyval
     \<Rightarrow> pyval \<Rightarrow> outcome" where
  "update_model L api remote model_id name category_id manufacturer_id model_number eol
      fieldset_id =
     after_checks
       [precondition_int L model_id,
        precondition_str L name,
        precondition_str L model_number,
        precondition_int L category_id,
        precondition_int L manufacturer_id,
        precondition_int L eol,
        precondition_int L fieldset_id]
       (let payload = [(''name'', name), (''category_id'', category_id), (''manufacturer_id'', manufacturer_id)];
            payload = add_to_dict L payload ''model_number'' model_number;
            payload = add_to_dict L payload ''eol'' eol;
            payload = add_to_dict L payload ''fieldset_id'' fieldset_id;
            path = ''/api/v1/models/'' @ py_str L model_id
        in http_patch api remote path (PDict payload))"

subsection \<open>Status Labels\<close>

definition create_status_label ::
    "pylib \<Rightarrow> snipe_api \<Rightarrow> remote \<Rightarrow> pyval \<Rightarrow> pyval
     \<Rightarrow> outcome" where
  "create_status_label L api remote name type_name =
     after_checks
       [precondition_str L name,
        precondition_enum L type_name [''deployable'', ''pending'', ''archived'']]
       (let payload = [(''name'', name)];
            payload = add_to_dict L payload ''type'' type_name;
            path = ''/api/v1/statuslabels''
        in http_post api remote path (PDict payload))"

definition delete_status_label ::
    "pylib \<Rightarrow> snipe_api \<Rightarrow> remote \<Rightarrow> pyval \<Rightarrow>
     outcome" where
  "delete_status_label L api remote status_label_id =
     after_checks
       [precondition_int L status_label_id]
       (let path = ''/api/v1/statuslabels/'' @ py_str L status_label_id
        in http_delete api remote path PNone)"

definition get_status_labels ::
    "pylib \<Rightarrow> snipe_api \<Rightarrow> remote \<Rightarrow> pyval \<Rightarrow> pyval
     \<Rightarrow> pyval \<Rightarrow> pyval \<Rightarrow> pyval \<Rightarrow> outcome" where
  "get_status_labels L api remote limit offset search sort' order =
     after_checks
       [precondition_int L limit,
        precondition_int L offset,
        precondition_str L search,
        precondition_enum L sort' sort_columns,
        precondition_enum L order [''asc'', ''desc'']]
       (let payload = [];
            payload = add_to_dict L payload ''limit'' limit;
            payload = add_to_dict L payload ''offset'' offset;
            payload = add_to_dict L payload ''search'' search;
            payload = add_to_dict L payload ''sort'' sort';
            payload = add_to_dict L payload ''order'' order;
            path = ''/api/v1/statuslabels''
        in http_get api remote path (PDict payload))"

definition get_status_label_by_id ::
    "pylib \<Rightarrow> snipe_api \<Rightarrow> remote \<Rightarrow> pyval \<Rightarrow>
     outcome" where
  "get_status_label_by_id L api remote status_label_id =
     after_checks
       [precondition_int L status_label_id]
       (let path = ''/api/v1/statuslabels/'' @ py_str L status_label_id
        in http_get api remote path PNone)"

definition update_status_label ::
    "pylib \<Rightarrow> snipe_api \<Rightarrow> remote \<Rightarrow> pyval \<Rightarrow> pyval
     \<Rightarrow> pyval \<Rightarrow> outcome" where
  "update_status_label L api remote status_label_id name type_name =
     after_checks
       [precondition_int L status_label_id,
        precondition_str L name,
        precondition_enum L type_name [''deployable'', ''pending'', ''archived'']]
       (let deployable_bool = False;
            pending_bool = False;
            archived_bool = False;
            (deployable_bool, pending_bool, archived_bool) =
              (if type_name = PStr ''deployable'' then (True, pending_bool, archived_bool)
               else if type_name = PStr ''pending'' then (deployable_bool, True, archived_bool)
               else if type_name = PStr ''archived'' then (deployable_bool, pending_bool, True)
               else (deployable_bool, pending_bool, archived_bool));
            payload = [(''name'', name), (''deployable'', PBool deployable_bool),
                       (''pending'', PBool pending_bool), (''archived'', PBool archived_bool)];
            path = ''/api/v1/statuslabels/'' @ py_str L status_label_id
        in http_post api remote path (PDict payload))"

subsection \<open>Users\<close>

definition create_user ::
    "pylib \<Rightarrow> snipe_api \<Rightarrow> remote \<Rightarrow> pyval \<Rightarrow> pyval
     \<Rightarrow> pyval \<Rightarrow> pyval \<Rightarrow> pyval \<Rightarrow> pyval
     \<Rightarrow> pyval \<Rightarrow> pyval \<Rightarrow> pyval \<Rightarrow> pyval
     \<Rightarrow> pyval \<Rightarrow> pyval \<Rightarrow> pyval \<Rightarrow> pyval
     \<Rightarrow> pyval \<Rightarrow> pyval \<Rightarrow> pyval \<Rightarrow> outcome" where
  "create_user L api remote first_name username password last_name email permissions
      activated phone jobtitle manager_id employee_num notes company_id two_factor_enrolled
      two_factor_optin department_id location_id =
     after_checks
       [precondition_str L first_name,
        precondition_str L last_name,
        precondition_str L username,
        precondition_str L password,
        precondition_str L email,
        precondition_str L permissions,
        precondition_bool L activated,
        precondition_str L phone,
        precondition_str L jobtitle,
        precondition_int L manager_id,
        precondition_str L employee_num,
        precondition_str L notes,
        precondition_int L company_id,
        precondition_bool L two_factor_enrolled,
        precondition_bool L two_factor_optin,
        precondition_int L department_id,
        precondition_int L location_id]
       (let payload = [(''first_name'', first_name), (''username'', username), (''password'', password), (''password_confirmation'', password)];
            payload = add_to_dict L payload ''last_name'' last_name;
            payload = add_to_dict L payload ''email'' email;
            payload = add_to_dict L payload ''permissions'' permissions;
            payload = add_to_dict L payload ''activated'' activated;
            payload = add_to_dict L payload ''phone'' phone;
            payload = add_to_dict L payload ''jobtitle'' jobtitle;
            payload = add_to_dict L payload ''manager_id'' manager_id;
            payload = add_to_dict L payload ''employee_num'' employee_num;
            payload = add_to_dict L payload ''notes'' notes;
            payload = add_to_dict L payload ''company_id'' company_id;
            payload = add_to_dict L payload ''two_factor_enrolled'' two_factor_enrolled;
            payload = add_to_dict L payload ''two_factor_optin'' two_factor_optin;
            payload = add_to_dict L payload ''department_id'' department_id;
            payload = add_to_dict L payload ''location_id'' location_id;
            path = ''/api/v1/users''
        in http_post api remote path (PDict payload))"

definition delete_user ::
    "pylib \<Rightarrow> snipe_api \<Rightarrow> remote \<Rightarrow> pyval \<Rightarrow>
     outcome" where
  "delete_user L api remote user_id =
     after_checks
       [precondition_int L user_id]
       (let path = ''/api/v1/users/'' @ py_str L user_id
        in http_delete api remote path PNone)"

definition get_users ::
    "pylib \<Rightarrow> snipe_api \<Rightarrow> remote \<Rightarrow> pyval \<Rightarrow> pyval
     \<Rightarrow> pyval \<Rightarrow> pyval \<Rightarrow> pyval \<Rightarrow> pyval
     \<Rightarrow> pyval \<Rightarrow> pyval \<Rightarrow> pyval \<Rightarrow> outcome" where
  "get_users L api remote search limit offset sort' order group_id company_id department_id
      deleted =
     after_checks
       [precondition_str L search,
        precondition_int L limit,
        precondition_int L offset,
        precondition_enum L sort' sort_columns,
        precondition_enum L order [''asc'', ''desc''],
        precondition_int L group_id,
        precondition_int L company_id,
        precondition_int L department_id,
        precondition_bool L deleted]
       (let payload = [];
            payload = add_to_dict L payload ''search'' search;
            payload = add_to_dict L payload ''limit'' limit;
            payload = add_to_dict L payload ''offset'' offset;
            payload = add_to_dict L payload ''sort'' sort';
            payload = add_to_dict L payload ''order'' order;
            payload = add_to_dict L payload ''group_id'' group_id;
            payload = add_to_dict L payload ''company_id'' company_id;
            payload = add_to_dict L payload ''department_id'' department_id;
            payload = add_to_dict L payload ''deleted'' deleted;
            path = ''/api/v1/users''
        in http_get api remote path (PDict payload))"

definition get_user_by_id ::
    "pylib \<Rightarrow> snipe_api \<Rightarrow> remote \<Rightarrow> pyval \<Rightarrow>
     outcome" where
  "get_user_by_id L api remote user_id =
     after_checks
       [precondition_int L user_id]
       (let path = ''/api/v1/users/'' @ py_str L user_id
        in http_get api remote path PNone)"

definition get_user_by_name ::
    "pylib \<Rightarrow> snipe_api \<Rightarrow> remote \<Rightarrow> string \<Rightarrow>
     outcome" where
  "get_user_by_name L api remote name =
     by_name (get_users L api remote (PStr name) PNone PNone PNone PNone PNone PNone PNone PNone) name"

definition get_users_checked_out_assets ::
    "pylib \<Rightarrow> snipe_api \<Rightarrow> remote \<Rightarrow> pyval \<Rightarrow>
     outcome" where
  "get_users_checked_out_assets L api remote user_id =
     after_checks
       [precondition_int L user_id]
       (let path = ''/api/v1/users/'' @ py_str L user_id @ ''/assets''
        in http_get api remote path PNone)"

definition get_users_checked_out_accessories ::
    "pylib \<Rightarrow> snipe_api \<Rightarrow> remote \<Rightarrow> pyval \<Rightarrow>
     outcome" where
  "get_users_checked_out_accessories L api remote user_id =
     after_checks
       [precondition_int L user_id]
       (let path = ''/api/v1/users/'' @ py_str L user_id @ ''/accessories''
        in http_get api remote path PNone)"

definition update_user ::
    "pylib \<Rightarrow> snipe_api \<Rightarrow> remote \<Rightarrow> pyval \<Rightarrow> pyval
     \<Rightarrow> pyval \<Rightarrow> pyval \<Rightarrow> pyval \<Rightarrow> pyval
     \<Rightarrow> pyval \<Rightarrow> pyval \<Rightarrow> pyval \<Rightarrow> pyval
     \<Rightarrow> pyval \<Rightarrow> pyval \<Rightarrow> pyval \<Rightarrow> pyval
     \<Rightarrow> pyval \<Rightarrow> pyval \<Rightarrow> pyval \<Rightarrow> pyval
     \<Rightarrow> outcome" where
  "update_user L api remote user_id first_name username password last_name email permissions
      activated phone jobtitle manager_id employee_num notes company_id two_factor_enrolled
      two_factor_optin department_id location_id =
     after_checks
       [precondition_int L user_id,
        precondition_str L first_name,
        precondition_str L last_name,
        precondition_str L username,
        precondition_str L password,
        precondition_str L email,
        precondition_str L permissions,
        precondition_bool L activated,
        precondition_str L phone,
        precondition_str L jobtitle,
        precondition_int L manager_id,
        precondition_str L employee_num,
        precondition_str L notes,
        precondition_int L company_id,
        precondition_bool L two_factor_enrolled,
        precondition_bool L two_factor_optin,
        precondition_int L department_id,
        precondition_int L location_id]
       (let payload = [];
            payload = add_to_dict L payload ''first_name'' first_name;
            payload = add_to_dict L payload ''username'' username;
            payload = add_to_dict L payload ''password'' password;
            payload = add_to_dict L payload ''password_confirmation'' password;
            payload = add_to_dict L payload ''last_name'' last_name;
            payload = add_to_dict L payload ''email'' email;
            payload = add_to_dict L payload ''permissions'' permissions;
            payload = add_to_dict L payload ''activated'' activated;
            payload = add_to_dict L payload ''phone'' phone;
            payload = add_to_dict L payload ''jobtitle'' jobtitle;
            payload = add_to_dict L payload ''manager_id'' manager_id;
            payload = add_to_dict L payload ''employee_num'' employee_num;
            payload = add_to_dict L payload ''notes'' notes;
            payload = add_to_dict L payload ''company_id'' company_id;
            payload = add_to_dict L payload ''two_factor_enrolled'' two_factor_enrolled;
            payload = add_to_dict L payload ''two_factor_optin'' two_factor_optin;
            payload = add_to_dict L payload ''department_id'' department_id;
            payload = add_to_dict L payload ''location_id'' location_id;
            path = ''/api/v1/users/'' @ py_str L user_id
        in http_patch api remote path (PDict payload))"

subsection \<open>Suppliers\<close>

definition create_supplier ::
    "pylib \<Rightarrow> snipe_api \<Rightarrow> remote \<Rightarrow> pyval \<Rightarrow> pyval
     \<Rightarrow> pyval \<Rightarrow> pyval \<Rightarrow> pyval \<Rightarrow> pyval
     \<Rightarrow> pyval \<Rightarrow> pyval \<Rightarrow> pyval \<Rightarrow> pyval
     \<Rightarrow> pyval \<Rightarrow> pyval \<Rightarrow> pyval \<Rightarrow> outcome" where
  "create_supplier L api remote name address address2 state city country zipcode contact
      phone fax email url notes =
     after_checks
       [precondition_str L name,
        precondition_str L address,
        precondition_str L address2,
        precondition_str L state,
        precondition_str L city,
        precondition_str L country,
        precondition_str L zipcode,
        precondition_str L contact,
        precondition_str L phone,
        precondition_str L fax,
        precondition_str L email,
        precondition_str L url,
        precondition_str L notes]
       (let payload = [(''name'', name)];
            payload = add_to_dict L payload ''address'' address;
            payload = add_to_dict L payload ''address2'' address2;
            payload = add_to_dict L payload ''state'' state;
            payload = add_to_dict L payload ''city'' city;
            payload = add_to_dict L payload ''country'' country;
            payload = add_to_dict L payload ''zip'' zipcode;
            payload = add_to_dict L payload ''contact'' contact;
            payload = add_to_dict L payload ''phone'' phone;
            payload = add_to_dict L payload ''fax'' fax;
            payload = add_to_dict L payload ''email'' email;
            payload = add_to_dict L payload ''url'' url;
            payload = add_to_dict L payload ''notes'' notes;
            path = ''/api/v1/suppliers''
        in http_post api remote path (PDict payload))"

definition delete_supplier ::
    "pylib \<Rightarrow> snipe_api \<Rightarrow> remote \<Rightarrow> pyval \<Rightarrow>
     outcome" where
  "delete_supplier L api remote supplier_id =
     after_checks
       [precondition_int L supplier_id]
       (let path = ''/api/v1/suppliers/'' @ py_str L supplier_id
        in http_delete api remote path PNone)"

definition get_suppliers ::
    "snipe_api \<Rightarrow> remote \<Rightarrow> outcome" where
  "get_suppliers api remote =
     (let path = ''/api/v1/suppliers''
      in http_get api remote path PNone)"

definition get_supplier_by_id ::
    "pylib \<Rightarrow> snipe_api \<Rightarrow> remote \<Rightarrow> pyval \<Rightarrow>
     outcome" where
  "get_supplier_by_id L api remote supplier_id =
     after_checks
       [precondition_int L supplier_id]
       (let path = ''/api/v1/suppliers/'' @ py_str L supplier_id
        in http_get api remote path PNone)"

definition get_supplier_by_name ::
    "snipe_api \<Rightarrow> remote \<Rightarrow> string \<Rightarrow> outcome" where
  "get_supplier_by_name api remote name =
     by_name (get_suppliers api remote) name"

definition update_supplier ::
    "pylib \<Rightarrow> snipe_api \<Rightarrow> remote \<Rightarrow> pyval \<Rightarrow> pyval
     \<Rightarrow> pyval \<Rightarrow> pyval \<Rightarrow> pyval \<Rightarrow> pyval
     \<Rightarrow> pyval \<Rightarrow> pyval \<Rightarrow> pyval \<Rightarrow> pyval
     \<Rightarrow> pyval \<Rightarrow> pyval \<Rightarrow> pyval \<Rightarrow> pyval
     \<Rightarrow> outcome" where
  "update_supplier L api remote supplier_id name address address2 state city country zipcode
      contact phone fax email url notes =
     after_checks
       [precondition_int L supplier_id,
        precondition_str L name,
        precondition_str L address,
        precondition_str L address2,
        precondition_str L state,
        precondition_str L city,
        precondition_str L country,
        precondition_str L zipcode,
        precondition_str L contact,
        precondition_str L phone,
        precondition_str L fax,
        precondition_str L email,
        precondition_str L url,
        precondition_str L notes]
       (let payload = [];
            payload = add_to_dict L payload ''name'' name;
            payload = add_to_dict L payload ''address'' address;
            payload = add_to_dict L payload ''address2'' address2;
            payload = add_to_dict L payload ''state'' state;
            payload = add_to_dict L payload ''city'' city;
            payload = add_to_dict L payload ''country'' country;
            payload = add_to_dict L payload ''zip'' zipcode;
            payload = add_to_dict L payload ''contact'' contact;
            payload = add_to_dict L payload ''phone'' phone;
            payload = add_to_dict L payload ''fax'' fax;
            payload = add_to_dict L payload ''email'' email;
            payload = add_to_dict L payload ''url'' url;
            payload = add_to_dict L payload ''notes'' notes;
            path = ''/api/v1/suppliers/'' @ py_str L supplier_id
        in http_patch api remote path (PDict payload))"

section \<open>Families of methods\<close>

text \<open>The fourteen \<open>get_..._by_name\<close> methods, in the order of the source.\<close>

definition by_name_methods :: "pylib \<Rightarrow> (snipe_api \<Rightarrow> remote \<Rightarrow> string \<Rightarrow> outcome) list" where
  "by_name_methods L =
     [get_accessory_by_name L, get_asset_by_name L, get_category_by_name L,
      get_company_by_name L, get_component_by_name L, get_consumable_by_name L,
      get_field_by_name, get_fieldset_by_name, get_license_by_name L, get_location_by_name L,
      get_manufacturer_by_name L, get_model_by_name L, get_user_by_name L,
      get_supplier_by_name]"

text \<open>
  What the specification asks of a lookup by name: the first row, in list order, whose
  \<open>name\<close> field is exactly the name, and \<open>None\<close> when no row has that name.
\<close>

definition first_exact_match :: "pyval list \<Rightarrow> string \<Rightarrow> pyval" where
  "first_exact_match rows name =
     (case find (\<lambda>row. subscript row ''name'' = Inr (PStr name)) rows of
        Some row \<Rightarrow> row
      | None \<Rightarrow> PNone)"

text \<open>A row that has a \<open>name\<close> field, as the entities of the server do.\<close>

definition has_name :: "pyval \<Rightarrow> bool" where
  "has_name row = (case subscript row ''name'' of Inl e \<Rightarrow> False | Inr v \<Rightarrow> True)"

text \<open>The rows that come before the first row named exactly \<open>name\<close>: all rows when there is none.\<close>

definition rows_before_match :: "pyval list \<Rightarrow> string \<Rightarrow> pyval list" where
  "rows_before_match rows name =
     takeWhile (\<lambda>row. subscript row ''name'' \<noteq> Inr (PStr name)) rows"

text \<open>A call that ended in a \<open>ValueError\<close> with nothing sent.\<close>

definition rejected :: "outcome \<Rightarrow> bool" where
  "rejected r = (snd r = [] \<and> (case fst r of Inl (ValueError m) \<Rightarrow> True | _ \<Rightarrow> False))"

text \<open>A call that gave a string, not a dictionary, to \<open>json.dumps\<close> in some request.\<close>

definition sends_str :: "outcome \<Rightarrow> bool" where
  "sends_str r =
     list_ex (\<lambda>rq. case rq_json rq of Some (PStr s) \<Rightarrow> True | _ \<Rightarrow> False) (snd r)"

text \<open>A precondition call that returned or raised a \<open>ValueError\<close>.\<close>

definition value_check :: "pyerr + unit \<Rightarrow> bool" where
  "value_check c = (case c of Inl (ValueError m) \<Rightarrow> True | Inl e \<Rightarrow> False | Inr u \<Rightarrow> True)"

text \<open>The URLs of the requests that a call sent.\<close>

definition sent_urls :: "outcome \<Rightarrow> string list" where
  "sent_urls r = map rq_url (snd r)"

section \<open>A sample environment\<close>

text \<open>
  The driver script's server and token, a stand-in for the interpreter's \<open>repr\<close> and date
  parser (right for strings without quotes or escapes; used on inputs without floats and
  dates), and two servers: one that answers every request with the rows \<open>A\<close> and \<open>Ab\<close>,
  one that answers with a status message.
\<close>

definition sample_lib :: pylib where
  "sample_lib =
     \<lparr>float_repr = (\<lambda>w. ''nan''),
      str_repr = (\<lambda>s. [CHR 0x27] @ s @ [CHR 0x27]),
      strptime_ok = (\<lambda>s. False)\<rparr>"

definition sample_api :: snipe_api where
  "sample_api = \<lparr>server = ''https://develop.snipeitapp.com'', token = ''CHANGEME''\<rparr>"

definition rows_remote :: remote where
  "rows_remote rq =
     PDict [(''total'', PInt 2),
            (''rows'', PList [PDict [(''name'', PStr ''A'')], PDict [(''name'', PStr ''Ab'')]])]"

definition status_remote :: remote where
  "status_remote rq = PDict [(''status'', PStr ''success'')]"

text \<open>A server whose first row has no \<open>name\<close> field.\<close>

definition nameless_remote :: remote where
  "nameless_remote rq =
     PDict [(''total'', PInt 2),
            (''rows'', PList [PDict [(''id'', PInt 1)], PDict [(''name'', PStr ''A'')]])]"

section \<open>Properties\<close>

subsection \<open>Strings and dictionaries\<close>

lemma digits_nonempty: "digits n \<noteq> []"
  by (subst digits.simps) simp

lemma str_int_nonempty: "str_int i \<noteq> []"
  by (simp add: str_int_def digits_nonempty)

lemma py_str_nonempty:
  assumes "\<forall>w. float_repr L w \<noteq> []" and "truthy v"
  shows "py_str L v \<noteq> []"
  using assms by (cases v) (simp_all add: py_str_def str_int_nonempty)

lemma py_str_dict_nonempty: "py_str L (PDict d) \<noteq> []"
  by (simp add: py_str_def)

lemma lower_nonempty: "lower s = [] \<longleftrightarrow> s = []"
  by (simp add: lower_def)

lemma map_of_dict_set: "map_of (dict_set d k v) = (map_of d)(k \<mapsto> v)"
  by (induction d) (auto simp: fun_eq_iff)

lemmas eval_str = str_int_def digits.simps digit_char_def py_str_def

subsection \<open>Precondition methods\<close>

lemma precondition_ok [simp]:
  "precondition_str L PNone = Inr ()" "precondition_str L (PStr s) = Inr ()"
  "precondition_int L PNone = Inr ()" "precondition_int L (PInt i) = Inr ()"
  "precondition_float L PNone = Inr ()" "precondition_float L (PFloat w) = Inr ()"
  "precondition_bool L PNone = Inr ()" "precondition_bool L (PBool b) = Inr ()"
  "precondition_enum L PNone enum = Inr ()"
  "precondition_date L PNone = Inr ()"
  "precondition_list L PNone t = Inr ()"
  by (simp_all add: precondition_str_def precondition_int_def precondition_float_def
        precondition_bool_def precondition_enum_def precondition_date_def precondition_list_def)

lemma precondition_enum_member [simp]:
  "s \<in> set enum \<Longrightarrow> precondition_enum L (PStr s) enum = Inr ()"
  by (simp add: precondition_enum_def py_in_def)

text \<open>
  The six validators other than the date validator do what their docstrings say: a value that
  is neither \<open>None\<close> nor of the expected kind raises a \<open>ValueError\<close> whose message starts
  with the value.
\<close>

lemma precondition_type_rejects:
  "v \<noteq> PNone \<Longrightarrow> type_of v \<noteq> TStr \<Longrightarrow>
     precondition_str L v = Inl (ValueError (py_str L v @ '' is not a string!''))"
  "v \<noteq> PNone \<Longrightarrow> type_of v \<noteq> TInt \<Longrightarrow>
     precondition_int L v = Inl (ValueError (py_str L v @ '' is not a string!''))"
  "v \<noteq> PNone \<Longrightarrow> type_of v \<noteq> TFloat \<Longrightarrow>
     precondition_float L v = Inl (ValueError (py_str L v @ '' is not a float!''))"
  "v \<noteq> PNone \<Longrightarrow> type_of v \<noteq> TBool \<Longrightarrow>
     precondition_bool L v = Inl (ValueError (py_str L v @ '' is not a boolean!''))"
  "v \<noteq> PNone \<Longrightarrow> type_of v \<noteq> TList \<Longrightarrow>
     precondition_list L v t = Inl (ValueError (py_str L v @ '' is not a list!''))"
  by (simp_all add: precondition_str_def precondition_int_def precondition_float_def
        precondition_bool_def precondition_list_def precondition_error_def)

lemma precondition_enum_rejects:
  "v \<noteq> PNone \<Longrightarrow> \<not> py_in v enum \<Longrightarrow>
     precondition_enum L v enum =
       Inl (ValueError (py_str L v @ '' is not in the accepted values list: ''
                          @ py_str L (PList (map PStr enum)) @ ''!''))"
  by (simp add: precondition_enum_def precondition_error_def)

lemma precondition_date_string:
  "precondition_date L (PStr s) =
     (if strptime_ok L s then Inr () else Inl (ValueError (s @ '' is not a date!'')))"
  by (simp add: precondition_date_def strptime_def precondition_error_def py_str_def)

text \<open>
  C1. Every validator accepts \<open>None\<close> and a value of its kind, and raises a
  \<open>ValueError\<close> naming the value for any other kind. The date validator does not: a value
  that is not a string makes \<open>strptime\<close> raise a \<open>TypeError\<close>, which the \<open>except ValueError\<close>
  clause lets through, where the string validator raises the \<open>ValueError\<close> on the same value.
\<close>

theorem precondition_date_non_string:
  "precondition_date L (PInt 5) = Inl TypeError \<and>
   precondition_str L (PInt 5) = Inl (ValueError ''5 is not a string!'')"
  by (simp add: precondition_date_def strptime_def precondition_str_def precondition_error_def
        eval_str)

subsection \<open>Payload assembly\<close>

text \<open>
  C2. \<open>_add_to_dict(d, k, v)\<close> sets \<open>d[k]\<close> exactly when the key and the value are both truthy
  and leaves \<open>d\<close> as it is otherwise; under the key \<open>expand\<close> the value stored is the
  lower-case string form of \<open>v\<close>, under any other key it is \<open>v\<close>. (The \<open>repr\<close> of a float is
  never the empty string.)
\<close>

theorem add_to_dict_truthy:
  assumes "\<forall>w. float_repr L w \<noteq> []"
  shows "add_to_dict L d k v =
           (if k \<noteq> [] \<and> truthy v
            then dict_set d k (if k = ''expand'' then PStr (lower (py_str L v)) else v)
            else d) \<and>
         map_of (add_to_dict L d k v) =
           (if k \<noteq> [] \<and> truthy v
            then (map_of d)(k \<mapsto> (if k = ''expand'' then PStr (lower (py_str L v)) else v))
            else map_of d)"
proof (cases "truthy v")
  case True
  then have "py_str L v \<noteq> []" by (rule py_str_nonempty [OF assms])
  with True show ?thesis
    by (simp add: add_to_dict_def Let_def lower_nonempty map_of_dict_set)
next
  case False
  then show ?thesis by (simp add: add_to_dict_def Let_def)
qed

theorem add_to_dict_truthy_witness:
  "(\<forall>w. float_repr sample_lib w \<noteq> []) \<and>
   add_to_dict sample_lib [] ''expand'' (PBool True) = [(''expand'', PStr ''true'')] \<and>
   add_to_dict sample_lib [] ''expand'' (PBool False) = [] \<and>
   add_to_dict sample_lib [] ''limit'' (PInt 5) = [(''limit'', PInt 5)] \<and>
   add_to_dict sample_lib [] ''limit'' PNone = []"
proof -
  have h: "\<forall>w. float_repr sample_lib w \<noteq> []" by (simp add: sample_lib_def)
  show ?thesis
    using h add_to_dict_truthy [OF h, of "[]" "''expand''" "PBool True"]
      add_to_dict_truthy [OF h, of "[]" "''expand''" "PBool False"]
      add_to_dict_truthy [OF h, of "[]" "''limit''" "PInt 5"]
      add_to_dict_truthy [OF h, of "[]" "''limit''" PNone]
    by (simp add: py_str_def lower_def lower_char_def)
qed

subsection \<open>Single methods\<close>

text \<open>
  C9. \<open>create_asset(status_id=2, model_id=24, name="pc1")\<close> sends one POST to
  \<open>/api/v1/hardware\<close> with the JSON of \<open>{"status_id": 2, "model_id": 24, "name": "pc1"}\<close>,
  the absent \<open>asset_tag\<close> adding no field, and returns the server's parsed answer as it is.
\<close>

theorem create_asset_pc1:
  "create_asset L api remote (PInt 2) (PInt 24) PNone (PStr ''pc1'') =
     (Inr (remote \<lparr>rq_verb = POST, rq_url = server api @ ''/api/v1/hardware'',
                   rq_json = Some (PDict [(''status_id'', PInt 2), (''model_id'', PInt 24),
                                          (''name'', PStr ''pc1'')])\<rparr>),
      [\<lparr>rq_verb = POST, rq_url = server api @ ''/api/v1/hardware'',
        rq_json = Some (PDict [(''status_id'', PInt 2), (''model_id'', PInt 24),
                               (''name'', PStr ''pc1'')])\<rparr>])"
  by (simp add: create_asset_def after_checks_def add_to_dict_def http_post_def perform_def
        Let_def)

theorem create_asset_pc1_witness:
  "create_asset sample_lib sample_api status_remote (PInt 2) (PInt 24) PNone (PStr ''pc1'') =
     (Inr (PDict [(''status'', PStr ''success'')]),
      [\<lparr>rq_verb = POST, rq_url = ''https://develop.snipeitapp.com/api/v1/hardware'',
        rq_json = Some (PDict [(''status_id'', PInt 2), (''model_id'', PInt 24),
                               (''name'', PStr ''pc1'')])\<rparr>])"
  using create_asset_pc1 [of sample_lib sample_api status_remote]
  by (simp add: sample_api_def status_remote_def)

text \<open>
  C6. For an integer id, a string name and a type name among \<open>deployable\<close>, \<open>pending\<close> and
  \<open>archived\<close>, \<open>update_status_label\<close> sends one POST to \<open>/api/v1/statuslabels/<id>\<close> with the
  JSON of the name and the three flags, of which the one called by the type name is true and
  the other two are false.
\<close>

theorem update_status_label_post:
  assumes "type_name \<in> set [''deployable'', ''pending'', ''archived'']"
  shows "update_status_label L api remote (PInt status_label_id) (PStr name) (PStr type_name) =
           perform remote
             \<lparr>rq_verb = POST,
              rq_url = server api @ ''/api/v1/statuslabels/'' @ str_int status_label_id,
              rq_json = Some (PDict [(''name'', PStr name),
                                     (''deployable'', PBool (type_name = ''deployable'')),
                                     (''pending'', PBool (type_name = ''pending'')),
                                     (''archived'', PBool (type_name = ''archived''))])\<rparr>
         \<and> [flag \<leftarrow> [''deployable'', ''pending'', ''archived'']. flag = type_name] = [type_name]"
  using assms
  by (auto simp: update_status_label_def after_checks_def http_post_def Let_def py_str_def)

theorem update_status_label_post_witness:
  "''pending'' \<in> set [''deployable'', ''pending'', ''archived''] \<and>
   update_status_label sample_lib sample_api status_remote (PInt 5) (PStr ''X'') (PStr ''pending'') =
     (Inr (PDict [(''status'', PStr ''success'')]),
      [\<lparr>rq_verb = POST, rq_url = ''https://develop.snipeitapp.com/api/v1/statuslabels/5'',
        rq_json = Some (PDict [(''name'', PStr ''X''), (''deployable'', PBool False),
                               (''pending'', PBool True), (''archived'', PBool False)])\<rparr>])"
proof -
  have h: "''pending'' \<in> set [''deployable'', ''pending'', ''archived'']" by simp
  show ?thesis
    using h update_status_label_post [OF h, of sample_lib sample_api status_remote 5 "''X''"]
    by (simp add: perform_def sample_api_def status_remote_def eval_str)
qed

subsection \<open>Requests and checks\<close>

lemma after_checks_ok: "checks cs = Inr () \<Longrightarrow> after_checks cs k = k"
  by (simp add: after_checks_def)

lemma http_sends:
  "http_get api remote path p =
     perform remote \<lparr>rq_verb = GET, rq_url = server api @ path,
                      rq_json = (if truthy p then Some p else None)\<rparr>"
  "http_post api remote path p =
     perform remote \<lparr>rq_verb = POST, rq_url = server api @ path,
                      rq_json = (if truthy p then Some p else None)\<rparr>"
  "http_put api remote path p =
     perform remote \<lparr>rq_verb = PUT, rq_url = server api @ path,
                      rq_json = (if truthy p then Some p else None)\<rparr>"
  "http_patch api remote path p =
     perform remote \<lparr>rq_verb = PATCH, rq_url = server api @ path,
                      rq_json = (if truthy p then Some p else None)\<rparr>"
  "http_delete api remote path p =
     perform remote \<lparr>rq_verb = DELETE, rq_url = server api @ path,
                      rq_json = (if truthy p then Some p else None)\<rparr>"
  by (simp_all add: http_get_def http_post_def http_put_def http_patch_def http_delete_def Let_def)

lemma perform_get_ex:
  "\<exists>rq. perform remote \<lparr>rq_verb = GET, rq_url = u, rq_json = j\<rparr> = perform remote rq
         \<and> rq_verb rq = GET"
  by (rule exI [of _ "\<lparr>rq_verb = GET, rq_url = u, rq_json = j\<rparr>"]) simp

lemma checks_value:
  "list_all value_check cs \<Longrightarrow> list_ex isl cs \<Longrightarrow> \<exists>m. checks cs = Inl (ValueError m)"
proof (induction cs)
  case Nil
  then show ?case by simp
next
  case (Cons c cs)
  then show ?case by (cases c) (auto simp: value_check_def split: pyerr.splits)
qed

lemma rejected_after_checks:
  "list_all value_check cs \<Longrightarrow> list_ex isl cs \<Longrightarrow> rejected (after_checks cs k)"
  using checks_value [of cs] by (auto simp: rejected_def after_checks_def)

lemma value_check_precondition [simp]:
  "value_check (precondition_str L v)" "value_check (precondition_int L v)"
  "value_check (precondition_float L v)" "value_check (precondition_bool L v)"
  "value_check (precondition_enum L v enum)"
  by (simp_all add: value_check_def precondition_str_def precondition_int_def
        precondition_float_def precondition_bool_def precondition_enum_def precondition_error_def)

lemma isl_precondition_enum:
  "v \<noteq> PNone \<Longrightarrow> \<not> py_in v enum \<Longrightarrow> isl (precondition_enum L v enum)"
  by (simp add: precondition_enum_def precondition_error_def)

lemma isl_precondition_str:
  "v \<noteq> PNone \<Longrightarrow> type_of v \<noteq> TStr \<Longrightarrow> isl (precondition_str L v)"
  by (simp add: precondition_str_def precondition_error_def)

lemma sent_urls_after_checks:
  "set (sent_urls (after_checks cs (http_patch api remote path p))) \<subseteq> {server api @ path}"
  "set (sent_urls (after_checks cs (http_put api remote path p))) \<subseteq> {server api @ path}"
  "set (sent_urls (after_checks cs (http_post api remote path p))) \<subseteq> {server api @ path}"
  by (simp_all add: sent_urls_def after_checks_def http_sends perform_def split: sum.splits)

lemma not_sends_str:
  "\<not> sends_str (after_checks cs (http_get api remote path (PDict d)))"
  "\<not> sends_str (after_checks cs (http_get api remote path PNone))"
  "\<not> sends_str (http_get api remote path PNone)"
  by (simp_all add: sends_str_def after_checks_def http_sends perform_def split: sum.splits)

subsection \<open>Lookup by name\<close>

lemma scan_rows_named:
  "list_all has_name (rows_before_match rows name) \<Longrightarrow>
     scan_rows rows name = Inr (first_exact_match rows name)"
proof (induction rows)
  case Nil
  then show ?case by (simp add: first_exact_match_def)
next
  case (Cons row rows)
  show ?case
  proof (cases "subscript row ''name'' = Inr (PStr name)")
    case True
    then show ?thesis by (simp add: first_exact_match_def)
  next
    case False
    with Cons.prems obtain v where v: "subscript row ''name'' = Inr v" and "v \<noteq> PStr name"
      by (auto simp: rows_before_match_def has_name_def split: sum.splits)
    moreover from False Cons.prems have "list_all has_name (rows_before_match rows name)"
      by (simp add: rows_before_match_def)
    ultimately show ?thesis
      using Cons.IH by (simp add: first_exact_match_def)
  qed
qed

lemma scan_rows_nameless:
  "\<not> list_all has_name (rows_before_match rows name) \<Longrightarrow> \<exists>e. scan_rows rows name = Inl e"
proof (induction rows)
  case Nil
  then show ?case by (simp add: rows_before_match_def)
next
  case (Cons row rows)
  show ?case
  proof (cases "subscript row ''name''")
    case (Inl e)
    then show ?thesis by simp
  next
    case (Inr v)
    show ?thesis
    proof (cases "v = PStr name")
      case True
      with Inr Cons.prems show ?thesis by (simp add: rows_before_match_def)
    next
      case False
      from Inr have "has_name row" by (simp add: has_name_def)
      with Inr False Cons.prems have "\<not> list_all has_name (rows_before_match rows name)"
        by (simp add: rows_before_match_def)
      with Cons.IH Inr False show ?thesis by simp
    qed
  qed
qed

text \<open>A row without a \<open>name\<close> field stops the loop with a \<open>KeyError\<close>.\<close>

lemma scan_rows_missing_name:
  "scan_rows (PDict [(''id'', PInt 1)] # rows) name = Inl (KeyError ''name'')"
  by simp

lemma first_exact_match_cases:
  "first_exact_match rows name = PNone \<or>
   first_exact_match rows name \<in> set rows \<and>
   subscript (first_exact_match rows name) ''name'' = Inr (PStr name)"
proof (cases "find (\<lambda>row. subscript row ''name'' = Inr (PStr name)) rows")
  case None
  then show ?thesis by (simp add: first_exact_match_def)
next
  case (Some row)
  then have "row \<in> set rows \<and> subscript row ''name'' = Inr (PStr name)"
    by (auto simp: find_Some_iff)
  with Some show ?thesis by (simp add: first_exact_match_def)
qed

lemma by_name_perform:
  assumes "subscript (remote rq) ''rows'' = Inr (PList rows)"
  shows "by_name (perform remote rq) name = (scan_rows rows name, [rq])"
  using assms by (simp add: by_name_def perform_def)

lemma by_name_sent: "snd (by_name r name) = snd r"
  by (simp add: by_name_def split: sum.splits)

lemma by_name_of_get:
  assumes "\<exists>rq. r = perform remote rq \<and> rq_verb rq = GET"
  shows "\<exists>rq. snd (by_name r name) = [rq] \<and> rq_verb rq = GET \<and>
           (\<forall>rows. subscript (remote rq) ''rows'' = Inr (PList rows) \<longrightarrow>
              (list_all has_name (rows_before_match rows name) \<longrightarrow>
                 fst (by_name r name) = Inr (first_exact_match rows name) \<and>
                 (\<forall>row. fst (by_name r name) = Inr row \<longrightarrow>
                    row = PNone \<or>
                    row \<in> set rows \<and> subscript row ''name'' = Inr (PStr name))) \<and>
              (\<not> list_all has_name (rows_before_match rows name) \<longrightarrow>
                 (\<exists>e. fst (by_name r name) = Inl e)))"
proof -
  from assms obtain rq where r: "r = perform remote rq" and g: "rq_verb rq = GET" by blast
  have sent: "snd (by_name r name) = [rq]" by (simp add: by_name_sent r perform_def)
  have scan: "fst (by_name r name) = scan_rows rows name"
    if "subscript (remote rq) ''rows'' = Inr (PList rows)" for rows
    using by_name_perform [of remote rq rows name, OF that] by (simp add: r)
  have found: "fst (by_name r name) = Inr (first_exact_match rows name)"
    if "subscript (remote rq) ''rows'' = Inr (PList rows)"
      "list_all has_name (rows_before_match rows name)" for rows
    using scan [OF that(1)] scan_rows_named [OF that(2)] by simp
  have exact: "row = PNone \<or> row \<in> set rows \<and> subscript row ''name'' = Inr (PStr name)"
    if "subscript (remote rq) ''rows'' = Inr (PList rows)"
      "list_all has_name (rows_before_match rows name)"
      "fst (by_name r name) = Inr row" for rows row
    using found [OF that(1,2)] that(3) first_exact_match_cases [of rows name] by auto
  have raised: "\<exists>e. fst (by_name r name) = Inl e"
    if "subscript (remote rq) ''rows'' = Inr (PList rows)"
      "\<not> list_all has_name (rows_before_match rows name)" for rows
    using scan [OF that(1)] scan_rows_nameless [OF that(2)] by simp
  from sent g found exact raised show ?thesis by blast
qed

lemma search_only:
  "\<exists>rq. get_accessories L api remote PNone PNone (PStr name) PNone PNone PNone PNone = perform remote rq \<and> rq_verb rq = GET"
  "\<exists>rq. get_assets L api remote PNone PNone (PStr name) PNone PNone PNone PNone PNone PNone PNone PNone PNone PNone = perform remote rq \<and> rq_verb rq = GET"
  "\<exists>rq. get_categories L api remote PNone PNone (PStr name) PNone PNone = perform remote rq \<and> rq_verb rq = GET"
  "\<exists>rq. get_companies L api remote (PStr name) = perform remote rq \<and> rq_verb rq = GET"
  "\<exists>rq. get_components L api remote PNone PNone (PStr name) PNone PNone PNone PNone = perform remote rq \<and> rq_verb rq = GET"
  "\<exists>rq. get_consumables L api remote PNone PNone (PStr name) PNone PNone PNone PNone PNone PNone PNone = perform remote rq \<and> rq_verb rq = GET"
  "\<exists>rq. get_fields api remote = perform remote rq \<and> rq_verb rq = GET"
  "\<exists>rq. get_fieldsets api remote = perform remote rq \<and> rq_verb rq = GET"
  "\<exists>rq. get_licenses L api remote PNone PNone (PStr name) PNone PNone PNone PNone = perform remote rq \<and> rq_verb rq = GET"
  "\<exists>rq. get_locations L api remote PNone PNone (PStr name) PNone PNone = perform remote rq \<and> rq_verb rq = GET"
  "\<exists>rq. get_manufacturers L api remote (PStr name) = perform remote rq \<and> rq_verb rq = GET"
  "\<exists>rq. get_models L api remote PNone PNone (PStr name) PNone PNone = perform remote rq \<and> rq_verb rq = GET"
  "\<exists>rq. get_users L api remote (PStr name) PNone PNone PNone PNone PNone PNone PNone PNone = perform remote rq \<and> rq_verb rq = GET"
  "\<exists>rq. get_suppliers api remote = perform remote rq \<and> rq_verb rq = GET"
  unfolding get_accessories_def get_assets_def get_categories_def get_companies_def
    get_components_def get_consumables_def get_fields_def get_fieldsets_def get_licenses_def
    get_locations_def get_manufacturers_def get_models_def get_users_def get_suppliers_def
  by (simp_all add: after_checks_def Let_def http_sends perform_get_ex
        precondition_str_def precondition_int_def precondition_bool_def precondition_enum_def
      split del: if_split)

text \<open>
  The claim C3 as written fails on an answer whose first row has no \<open>name\<close> field: the
  loop raises a \<open>KeyError\<close> on that row and never reaches the row named \<open>A\<close> behind it.
\<close>

theorem get_by_name_nameless_row:
  "get_accessory_by_name sample_lib sample_api nameless_remote ''A'' =
     (Inl (KeyError ''name''),
      [\<lparr>rq_verb = GET, rq_url = ''https://develop.snipeitapp.com/api/v1/accessories'',
        rq_json = Some (PStr (''{'' @ str_repr sample_lib ''search'' @ '': ''
                               @ str_repr sample_lib ''A'' @ ''}''))\<rparr>]) \<and>
   first_exact_match [PDict [(''id'', PInt 1)], PDict [(''name'', PStr ''A'')]] ''A'' =
     PDict [(''name'', PStr ''A'')]"
  by (simp add: get_accessory_by_name_def get_accessories_def after_checks_def Let_def
        add_to_dict_def http_get_def perform_def by_name_def nameless_remote_def sample_api_def
        py_str_def first_exact_match_def)

text \<open>
  C3, amended. Every \<open>get_..._by_name(name)\<close> sends one GET. When the answer has a list
  \<open>rows\<close> and every row before the first row named exactly \<open>name\<close> (every row, when there is
  none) has a \<open>name\<close> field, the method returns the first row whose name is exactly \<open>name\<close>, in
  list order, and \<open>None\<close> when there is none; a row whose name only contains \<open>name\<close> is not
  returned. When one of those rows has no \<open>name\<close> field the method raises and returns nothing.
\<close>

theorem get_by_name_first_exact:
  assumes "m \<in> set (by_name_methods L)"
  shows "\<exists>rq. snd (m api remote name) = [rq] \<and> rq_verb rq = GET \<and>
           (\<forall>rows. subscript (remote rq) ''rows'' = Inr (PList rows) \<longrightarrow>
              (list_all has_name (rows_before_match rows name) \<longrightarrow>
                 fst (m api remote name) = Inr (first_exact_match rows name) \<and>
                 (\<forall>row. fst (m api remote name) = Inr row \<longrightarrow>
                    row = PNone \<or>
                    row \<in> set rows \<and> subscript row ''name'' = Inr (PStr name))) \<and>
              (\<not> list_all has_name (rows_before_match rows name) \<longrightarrow>
                 (\<exists>e. fst (m api remote name) = Inl e)))"
proof -
  note scan = by_name_of_get [where remote = remote and name = name]
  from assms consider
      "m = get_accessory_by_name L" | "m = get_asset_by_name L" | "m = get_category_by_name L"
    | "m = get_company_by_name L" | "m = get_component_by_name L"
    | "m = get_consumable_by_name L" | "m = get_field_by_name" | "m = get_fieldset_by_name"
    | "m = get_license_by_name L" | "m = get_location_by_name L"
    | "m = get_manufacturer_by_name L" | "m = get_model_by_name L" | "m = get_user_by_name L"
    | "m = get_supplier_by_name"
    by (auto simp: by_name_methods_def)
  then show ?thesis
  proof cases
    case 1 then show ?thesis unfolding 1 get_accessory_by_name_def by (intro scan search_only)
  next
    case 2 then show ?thesis unfolding 2 get_asset_by_name_def by (intro scan search_only)
  next
    case 3 then show ?thesis unfolding 3 get_category_by_name_def by (intro scan search_only)
  next
    case 4 then show ?thesis unfolding 4 get_company_by_name_def by (intro scan search_only)
  next
    case 5 then show ?thesis unfolding 5 get_component_by_name_def by (intro scan search_only)
  next
    case 6 then show ?thesis unfolding 6 get_consumable_by_name_def by (intro scan search_only)
  next
    case 7 then show ?thesis unfolding 7 get_field_by_name_def by (intro scan search_only)
  next
    case 8 then show ?thesis unfolding 8 get_fieldset_by_name_def by (intro scan search_only)
  next
    case 9 then show ?thesis unfolding 9 get_license_by_name_def by (intro scan search_only)
  next
    case 10 then show ?thesis unfolding 10 get_location_by_name_def by (intro scan search_only)
  next
    case 11 then show ?thesis unfolding 11 get_manufacturer_by_name_def by (intro scan search_only)
  next
    case 12 then show ?thesis unfolding 12 get_model_by_name_def by (intro scan search_only)
  next
    case 13 then show ?thesis unfolding 13 get_user_by_name_def by (intro scan search_only)
  next
    case 14 then show ?thesis unfolding 14 get_supplier_by_name_def by (intro scan search_only)
  qed
qed

theorem get_by_name_first_exact_witness:
  "get_accessory_by_name sample_lib \<in> set (by_name_methods sample_lib) \<and>
   list_all has_name
     (rows_before_match [PDict [(''name'', PStr ''A'')], PDict [(''name'', PStr ''Ab'')]] ''A'') \<and>
   fst (get_accessory_by_name sample_lib sample_api rows_remote ''A'') =
     Inr (PDict [(''name'', PStr ''A'')]) \<and>
   fst (get_accessory_by_name sample_lib sample_api rows_remote ''b'') = Inr PNone \<and>
   \<not> list_all has_name
     (rows_before_match [PDict [(''id'', PInt 1)], PDict [(''name'', PStr ''A'')]] ''A'') \<and>
   (\<exists>e. fst (get_accessory_by_name sample_lib sample_api nameless_remote ''A'') = Inl e)"
proof -
  have h: "get_accessory_by_name sample_lib \<in> set (by_name_methods sample_lib)"
    by (simp add: by_name_methods_def)
  have r: "subscript (rows_remote rq) ''rows'' =
             Inr (PList [PDict [(''name'', PStr ''A'')], PDict [(''name'', PStr ''Ab'')]])" for rq
    by (simp add: rows_remote_def)
  have n: "subscript (nameless_remote rq) ''rows'' =
             Inr (PList [PDict [(''id'', PInt 1)], PDict [(''name'', PStr ''A'')]])" for rq
    by (simp add: nameless_remote_def)
  have w: "list_all has_name
             (rows_before_match [PDict [(''name'', PStr ''A'')], PDict [(''name'', PStr ''Ab'')]] a)"
    for a
    by (simp add: has_name_def rows_before_match_def)
  have v: "\<not> list_all has_name
             (rows_before_match [PDict [(''id'', PInt 1)], PDict [(''name'', PStr ''A'')]] ''A'')"
    by (simp add: has_name_def rows_before_match_def)
  show ?thesis
    using h get_by_name_first_exact [OF h, of sample_api rows_remote "''A''"]
      get_by_name_first_exact [OF h, of sample_api rows_remote "''b''"]
      get_by_name_first_exact [OF h, of sample_api nameless_remote "''A''"] r n w v
    by (auto simp: first_exact_match_def)
qed

subsection \<open>Updates and deletions\<close>

text \<open>
  Every \<open>update_...\<close> method but the one for manufacturers sends its request to the path
  that ends with the id.
\<close>

lemma update_paths_end_with_id:
  "set (sent_urls (update_asset L api remote (PInt i) asset_tag notes status_id model_id last_checkout
         assigned_to company_id serial order_number warranty_months purchase_cost purchase_date
         requestable archived rtd_location_id name))
       \<subseteq> {server api @ ''/api/v1/hardware/'' @ str_int i}"
  "set (sent_urls (update_category L api remote (PInt i) name category_type use_default_eula require_acceptance
         checkin_email))
       \<subseteq> {server api @ ''/api/v1/categories/'' @ str_int i}"
  "set (sent_urls (update_company L api remote (PInt i) name))
       \<subseteq> {server api @ ''/api/v1/companies/'' @ str_int i}"
  "set (sent_urls (update_field L api remote (PInt i) name element field_values fmt custom_format help_text
         show_in_email field_encrypted))
       \<subseteq> {server api @ ''/api/v1/fields/'' @ str_int i}"
  "set (sent_urls (update_fieldset L api remote (PInt i) name))
       \<subseteq> {server api @ ''/api/v1/fieldsets/'' @ str_int i}"
  "set (sent_urls (update_license L api remote (PInt i) name seats company_id expiration_date license_email
         license_name maintained manufacturer_id notes order_number purchase_cost purchase_date
         purchase_order reassignable serial supplier_id termination_date))
       \<subseteq> {server api @ ''/api/v1/licenses/'' @ str_int i}"
  "set (sent_urls (update_location L api remote (PInt i) name address address2 city state country zipcode))
       \<subseteq> {server api @ ''/api/v1/locations/'' @ str_int i}"
  "set (sent_urls (update_model L api remote (PInt i) name category_id manufacturer_id model_number eol
         fieldset_id))
       \<subseteq> {server api @ ''/api/v1/models/'' @ str_int i}"
  "set (sent_urls (update_status_label L api remote (PInt i) name type_name))
       \<subseteq> {server api @ ''/api/v1/statuslabels/'' @ str_int i}"
  "set (sent_urls (update_user L api remote (PInt i) first_name username password last_name email permissions
         activated phone jobtitle manager_id employee_num notes company_id two_factor_enrolled
         two_factor_optin department_id location_id))
       \<subseteq> {server api @ ''/api/v1/users/'' @ str_int i}"
  "set (sent_urls (update_supplier L api remote (PInt i) name address address2 state city country zipcode
         contact phone fax email url notes))
       \<subseteq> {server api @ ''/api/v1/suppliers/'' @ str_int i}"
  unfolding update_asset_def update_category_def update_company_def update_field_def update_fieldset_def
    update_license_def update_location_def update_model_def update_status_label_def
    update_user_def update_supplier_def
  by (simp_all add: Let_def py_str_def sent_urls_after_checks)

text \<open>
  C5. Every \<open>update_...(id, ...)\<close> sends its request to \<open>/api/v1/<resource-path>/<id>\<close>.
  \<open>update_manufacturer\<close> does not: its path is the collection's, without the id, where
  the eleven sibling methods above append it.
\<close>

theorem update_manufacturer_path:
  "update_manufacturer sample_lib sample_api status_remote (PInt 3) (PStr ''Acme'') =
     (Inr (PDict [(''status'', PStr ''success'')]),
      [\<lparr>rq_verb = PATCH, rq_url = ''https://develop.snipeitapp.com/api/v1/manufacturers'',
        rq_json = Some (PDict [(''name'', PStr ''Acme'')])\<rparr>])"
  by (simp add: update_manufacturer_def after_checks_def http_patch_def perform_def Let_def
        sample_api_def status_remote_def)

text \<open>
  Every \<open>delete_...\<close> method but the one for companies returns the parsed answer of its
  DELETE request.
\<close>

lemma delete_returns_response:
  "delete_asset L api remote (PInt i) =
     perform remote \<lparr>rq_verb = DELETE, rq_url = server api @ ''/api/v1/hardware/'' @ str_int i,
                      rq_json = None\<rparr>"
  "delete_category L api remote (PInt i) =
     perform remote \<lparr>rq_verb = DELETE, rq_url = server api @ ''/api/v1/categories/'' @ str_int i,
                      rq_json = None\<rparr>"
  "delete_field L api remote (PInt i) =
     perform remote \<lparr>rq_verb = DELETE, rq_url = server api @ ''/api/v1/fields/'' @ str_int i,
                      rq_json = None\<rparr>"
  "delete_fieldset L api remote (PInt i) =
     perform remote \<lparr>rq_verb = DELETE, rq_url = server api @ ''/api/v1/fieldsets/'' @ str_int i,
                      rq_json = None\<rparr>"
  "delete_license L api remote (PInt i) =
     perform remote \<lparr>rq_verb = DELETE, rq_url = server api @ ''/api/v1/licenses/'' @ str_int i,
                      rq_json = None\<rparr>"
  "delete_location L api remote (PInt i) =
     perform remote \<lparr>rq_verb = DELETE, rq_url = server api @ ''/api/v1/locations/'' @ str_int i,
                      rq_json = None\<rparr>"
  "delete_manufacturer L api remote (PInt i) =
     perform remote \<lparr>rq_verb = DELETE, rq_url = server api @ ''/api/v1/manufacturers/'' @ str_int i,
                      rq_json = None\<rparr>"
  "delete_model L api remote (PInt i) =
     perform remote \<lparr>rq_verb = DELETE, rq_url = server api @ ''/api/v1/models/'' @ str_int i,
                      rq_json = None\<rparr>"
  "delete_status_label L api remote (PInt i) =
     perform remote \<lparr>rq_verb = DELETE, rq_url = server api @ ''/api/v1/statuslabels/'' @ str_int i,
                      rq_json = None\<rparr>"
  "delete_user L api remote (PInt i) =
     perform remote \<lparr>rq_verb = DELETE, rq_url = server api @ ''/api/v1/users/'' @ str_int i,
                      rq_json = None\<rparr>"
  "delete_supplier L api remote (PInt i) =
     perform remote \<lparr>rq_verb = DELETE, rq_url = server api @ ''/api/v1/suppliers/'' @ str_int i,
                      rq_json = None\<rparr>"
  unfolding delete_asset_def delete_category_def delete_field_def delete_fieldset_def delete_license_def
    delete_location_def delete_manufacturer_def delete_model_def delete_status_label_def
    delete_user_def delete_supplier_def
  by (simp_all add: Let_def py_str_def after_checks_def http_sends)

text \<open>
  C7. Every public method sends one request and returns the parsed answer as it is; in
  particular every \<open>delete_...(id)\<close> returns the answer of its DELETE request.
  \<open>delete_company\<close> does not: it sends the request and drops the answer, so the caller
  gets \<open>None\<close>, where the eleven sibling methods above return the answer.
\<close>

theorem delete_company_returns_none:
  "delete_company sample_lib sample_api status_remote (PInt 1) =
     (Inr PNone,
      [\<lparr>rq_verb = DELETE, rq_url = ''https://develop.snipeitapp.com/api/v1/companies/1'',
        rq_json = None\<rparr>]) \<and>
   status_remote \<lparr>rq_verb = DELETE,
                   rq_url = ''https://develop.snipeitapp.com/api/v1/companies/1'',
                   rq_json = None\<rparr> = PDict [(''status'', PStr ''success'')] \<and>
   delete_asset sample_lib sample_api status_remote (PInt 1) =
     (Inr (PDict [(''status'', PStr ''success'')]),
      [\<lparr>rq_verb = DELETE, rq_url = ''https://develop.snipeitapp.com/api/v1/hardware/1'',
        rq_json = None\<rparr>])"
  by (simp add: delete_company_def delete_asset_def after_checks_def http_delete_def perform_def
        Let_def returning_none_def sample_api_def status_remote_def eval_str)

subsection \<open>Collections\<close>

text \<open>
  The claim C8 as written fails on \<open>get_categories\<close>, which takes any string for \<open>sort\<close>
  and sends it.
\<close>

theorem get_categories_any_sort:
  "get_categories sample_lib sample_api rows_remote PNone PNone PNone (PStr ''bogus'') PNone =
     perform rows_remote
       \<lparr>rq_verb = GET, rq_url = ''https://develop.snipeitapp.com/api/v1/categories'',
        rq_json = Some (PDict [(''sort'', PStr ''bogus'')])\<rparr>"
  by (simp add: get_categories_def after_checks_def http_get_def Let_def add_to_dict_def
        sample_api_def)

text \<open>
  C8, amended. In the ten \<open>get_...\<close> methods with a \<open>sort\<close> parameter other than
  \<open>get_categories\<close>, a \<open>sort\<close> that is neither \<open>None\<close> nor a string of the list of
  columns, or an \<open>order\<close> that is neither \<open>None\<close>, \<open>asc\<close> nor \<open>desc\<close>, ends the call with a
  \<open>ValueError\<close> before anything is sent. \<open>get_categories\<close> checks \<open>order\<close> in the same way
  and checks of \<open>sort\<close> only that it is a string: any string passes and is sent.
\<close>

theorem sort_order_validated:
  "(sort' \<noteq> PNone \<and> \<not> py_in sort' sort_columns \<or>
    order \<noteq> PNone \<and> \<not> py_in order [''asc'', ''desc''] \<longrightarrow>
     rejected (get_accessories L api remote limit offset search order_number sort' order expand) \<and>
     rejected (get_assets L api remote limit offset search order_number sort' order model_id category_id
                 manufacturer_id company_id location_id status status_id) \<and>
     rejected (get_components L api remote limit offset search order_number sort' order expand) \<and>
     rejected (get_consumables L api remote limit offset search order_number sort' order expand category_id
                 company_id manufacturer_id) \<and>
     rejected (get_licenses L api remote limit offset search order_number sort' order expand) \<and>
     rejected (get_locations L api remote limit offset search sort' order) \<and>
     rejected (get_maintenaces L api remote limit offset search sort' order asset_id) \<and>
     rejected (get_models L api remote limit offset search sort' order) \<and>
     rejected (get_status_labels L api remote limit offset search sort' order) \<and>
     rejected (get_users L api remote search limit offset sort' order group_id company_id department_id
                 deleted)) \<and>
   (sort' \<noteq> PNone \<and> type_of sort' \<noteq> TStr \<or>
    order \<noteq> PNone \<and> \<not> py_in order [''asc'', ''desc''] \<longrightarrow>
     rejected (get_categories L api remote limit offset search sort' order)) \<and>
   get_categories L api remote PNone PNone PNone (PStr s) PNone =
     perform remote \<lparr>rq_verb = GET, rq_url = server api @ ''/api/v1/categories'',
                      rq_json = (if s = [] then None else Some (PDict [(''sort'', PStr s)]))\<rparr>"
proof (intro conjI impI)
  show "get_categories L api remote PNone PNone PNone (PStr s) PNone =
     perform remote \<lparr>rq_verb = GET, rq_url = server api @ ''/api/v1/categories'',
                      rq_json = (if s = [] then None else Some (PDict [(''sort'', PStr s)]))\<rparr>"
    by (simp add: get_categories_def after_checks_def Let_def add_to_dict_def http_sends)
qed (unfold get_accessories_def get_assets_def get_categories_def get_components_def get_consumables_def
    get_licenses_def get_locations_def get_maintenaces_def get_models_def get_status_labels_def
    get_users_def,
     (rule rejected_after_checks, simp, auto simp: isl_precondition_enum isl_precondition_str)+)

theorem sort_order_validated_witness:
  "\<not> py_in (PStr ''bogus'') sort_columns \<and>
   rejected (get_accessories sample_lib sample_api rows_remote PNone PNone PNone PNone
               (PStr ''bogus'') PNone PNone) \<and>
   rejected (get_users sample_lib sample_api rows_remote PNone PNone PNone
               (PStr ''bogus'') PNone PNone PNone PNone PNone) \<and>
   \<not> py_in (PStr ''up'') [''asc'', ''desc''] \<and>
   rejected (get_categories sample_lib sample_api rows_remote PNone PNone PNone PNone
               (PStr ''up'')) \<and>
   get_categories sample_lib sample_api rows_remote PNone PNone PNone (PStr ''name'') PNone =
     (Inr (rows_remote \<lparr>rq_verb = GET, rq_url = ''https://develop.snipeitapp.com/api/v1/categories'',
                         rq_json = Some (PDict [(''sort'', PStr ''name'')])\<rparr>),
      [\<lparr>rq_verb = GET, rq_url = ''https://develop.snipeitapp.com/api/v1/categories'',
        rq_json = Some (PDict [(''sort'', PStr ''name'')])\<rparr>])"
proof -
  have h: "\<not> py_in (PStr ''bogus'') sort_columns"
    by (simp add: py_in_def sort_columns_def)
  have h': "\<not> py_in (PStr ''up'') [''asc'', ''desc'']"
    by (simp add: py_in_def)
  show ?thesis
    using h h' sort_order_validated [where sort' = PNone and order = "PStr ''up''"
        and L = sample_lib and api = sample_api and remote = rows_remote and limit = PNone
        and offset = PNone and search = PNone and order_number = PNone and expand = PNone
        and model_id = PNone and category_id = PNone and manufacturer_id = PNone
        and company_id = PNone and location_id = PNone and status = PNone and status_id = PNone
        and asset_id = PNone and group_id = PNone and department_id = PNone and deleted = PNone
        and s = "''name''"]
      sort_order_validated [where sort' = "PStr ''bogus''" and order = PNone
        and L = sample_lib and api = sample_api and remote = rows_remote and limit = PNone
        and offset = PNone and search = PNone and order_number = PNone and expand = PNone
        and model_id = PNone and category_id = PNone and manufacturer_id = PNone
        and company_id = PNone and location_id = PNone and status = PNone and status_id = PNone
        and asset_id = PNone and group_id = PNone and department_id = PNone and deleted = PNone
        and s = "''name''"]
    by (simp add: perform_def sample_api_def)
qed

text \<open>
  The claim C4 as written fails on \<open>get_manufacturers\<close>, which hands the mapping it built
  to the GET: the search filter is sent.
\<close>

theorem get_manufacturers_sends_search:
  "get_manufacturers sample_lib sample_api rows_remote (PStr ''Dell'') =
     perform rows_remote
       \<lparr>rq_verb = GET, rq_url = ''https://develop.snipeitapp.com/api/v1/manufacturers'',
        rq_json = Some (PDict [(''search'', PStr ''Dell'')])\<rparr>"
  by (simp add: get_manufacturers_def after_checks_def http_get_def Let_def add_to_dict_def
        sample_api_def)

text \<open>
  C4, amended. \<open>get_companies\<close> takes a \<open>search\<close> argument, builds the mapping and then
  sends its GET without parameters, whatever the search; \<open>get_suppliers\<close> takes no argument
  and sends its GET without parameters; \<open>get_manufacturers\<close> sends \<open>{"search": search}\<close>
  for a non-empty search string, and no parameters for \<open>None\<close> or the empty string.
\<close>

theorem search_transmission:
  "(search = PNone \<or> type_of search = TStr \<longrightarrow>
      get_companies L api remote search =
        perform remote \<lparr>rq_verb = GET, rq_url = server api @ ''/api/v1/companies'',
                         rq_json = None\<rparr>) \<and>
   get_suppliers api remote =
     perform remote \<lparr>rq_verb = GET, rq_url = server api @ ''/api/v1/suppliers'',
                      rq_json = None\<rparr> \<and>
   get_manufacturers L api remote (PStr s) =
     perform remote \<lparr>rq_verb = GET, rq_url = server api @ ''/api/v1/manufacturers'',
                      rq_json = (if s = [] then None else Some (PDict [(''search'', PStr s)]))\<rparr> \<and>
   get_manufacturers L api remote PNone =
     perform remote \<lparr>rq_verb = GET, rq_url = server api @ ''/api/v1/manufacturers'',
                      rq_json = None\<rparr>"
proof (intro conjI impI)
  assume "search = PNone \<or> type_of search = TStr"
  then have "precondition_str L search = Inr ()"
    by (auto simp: precondition_str_def)
  then show "get_companies L api remote search =
        perform remote \<lparr>rq_verb = GET, rq_url = server api @ ''/api/v1/companies'',
                         rq_json = None\<rparr>"
    by (simp add: get_companies_def after_checks_def Let_def http_sends)
qed (simp_all add: get_suppliers_def get_manufacturers_def after_checks_def Let_def
       add_to_dict_def http_sends)

theorem search_transmission_witness:
  "type_of (PStr ''Dell'') = TStr \<and>
   get_companies sample_lib sample_api rows_remote (PStr ''Dell'') =
     perform rows_remote
       \<lparr>rq_verb = GET, rq_url = ''https://develop.snipeitapp.com/api/v1/companies'',
        rq_json = None\<rparr> \<and>
   get_manufacturers sample_lib sample_api rows_remote (PStr ''Dell'') =
     perform rows_remote
       \<lparr>rq_verb = GET, rq_url = ''https://develop.snipeitapp.com/api/v1/manufacturers'',
        rq_json = Some (PDict [(''search'', PStr ''Dell'')])\<rparr>"
  using search_transmission [of "PStr ''Dell''" sample_lib sample_api rows_remote "''Dell''"]
  by (simp add: sample_api_def)



end
